theory Spec2Isabelle
  imports Main "HOL-Library.Word"
begin

unbundle bit_operations_syntax

section \<open>Data model of os_bsd_aarch64.cpp\<close>

text \<open>
  The file os_bsd_aarch64.cpp holds two copies of the signal handling code, selected by
  the preprocessor: lines 97-753 for macOS (the Apple branch) and lines 755-1368 for
  FreeBSD, OpenBSD and NetBSD. Addresses and registers are 64 bit words; the C value
  NULL is the word 0 and (address)-1 is the word - 1.
\<close>

type_synonym address = "64 word"

datatype os_variant = Apple | FreeBSD | OpenBSD | NetBSD

subsection \<open>The raw execution context (ucontext_t), one layout per OS\<close>

text \<open>
  The layouts are those of the system headers; only the members that the source reads
  or writes are kept. macOS (lines 109-115): the members reached through the macros
  context_x, context_fp, context_lr, context_sp, context_pc, context_cpsr and
  context_esr. Register arrays are functions from the index.
\<close>

record darwin_mcontext =
  context_x :: "nat \<Rightarrow> 64 word"
  context_fp :: "64 word"
  context_lr :: "64 word"
  context_sp :: "64 word"
  context_pc :: "64 word"
  context_cpsr :: "32 word"
  context_esr :: "32 word"

text \<open>FreeBSD: uc_mcontext.mc_gpregs with gp_x, gp_lr, gp_sp, gp_elr (and gp_spsr).\<close>

record freebsd_gpregs =
  gp_x :: "nat \<Rightarrow> 64 word"
  gp_lr :: "64 word"
  gp_sp :: "64 word"
  gp_elr :: "64 word"
  gp_spsr :: "64 word"

text \<open>OpenBSD: struct sigcontext with sc_x, sc_lr, sc_sp, sc_elr (and sc_spsr).\<close>

record openbsd_sigcontext =
  sc_x :: "nat \<Rightarrow> 64 word"
  sc_lr :: "64 word"
  sc_sp :: "64 word"
  sc_elr :: "64 word"
  sc_spsr :: "64 word"

text \<open>NetBSD: one array uc_mcontext.__gregs indexed by the _REG_ constants.\<close>

datatype ucontext =
    Darwin_uc darwin_mcontext
  | FreeBSD_uc freebsd_gpregs
  | OpenBSD_uc openbsd_sigcontext
  | NetBSD_uc "nat \<Rightarrow> 64 word"

text \<open>REG_FP is defined at line 757. The _REG_ indices are those of the NetBSD machine
  header, which is not among these sources.\<close>

definition REG_FP :: nat where "REG_FP = 29"
definition NetBSD_REG_FP :: nat where "NetBSD_REG_FP = 29"
definition NetBSD_REG_LR :: nat where "NetBSD_REG_LR = 30"
definition NetBSD_REG_SP :: nat where "NetBSD_REG_SP = 31"
definition NetBSD_REG_ELR :: nat where "NetBSD_REG_ELR = 32"
definition NetBSD_REG_SPSR :: nat where "NetBSD_REG_SPSR = 33"

text \<open>os::Bsd::ucontext_get_pc, lines 138-140 and 771-779.\<close>

fun ucontext_get_pc :: "ucontext \<Rightarrow> address" where
  "ucontext_get_pc (Darwin_uc c) = context_pc c"
| "ucontext_get_pc (FreeBSD_uc g) = gp_elr g"
| "ucontext_get_pc (OpenBSD_uc s) = sc_elr s"
| "ucontext_get_pc (NetBSD_uc r) = r NetBSD_REG_ELR"

text \<open>os::Bsd::ucontext_set_pc, lines 142-144 and 781-789.\<close>

fun ucontext_set_pc :: "ucontext \<Rightarrow> address \<Rightarrow> ucontext" where
  "ucontext_set_pc (Darwin_uc c) pc = Darwin_uc (c\<lparr>context_pc := pc\<rparr>)"
| "ucontext_set_pc (FreeBSD_uc g) pc = FreeBSD_uc (g\<lparr>gp_elr := pc\<rparr>)"
| "ucontext_set_pc (OpenBSD_uc s) pc = OpenBSD_uc (s\<lparr>sc_elr := pc\<rparr>)"
| "ucontext_set_pc (NetBSD_uc r) pc = NetBSD_uc (r(NetBSD_REG_ELR := pc))"

text \<open>os::Bsd::ucontext_get_sp, lines 146-148 and 791-799.\<close>

fun ucontext_get_sp :: "ucontext \<Rightarrow> address" where
  "ucontext_get_sp (Darwin_uc c) = context_sp c"
| "ucontext_get_sp (FreeBSD_uc g) = gp_sp g"
| "ucontext_get_sp (OpenBSD_uc s) = sc_sp s"
| "ucontext_get_sp (NetBSD_uc r) = r NetBSD_REG_SP"

text \<open>os::Bsd::ucontext_get_fp, lines 150-152 and 801-809.\<close>

fun ucontext_get_fp :: "ucontext \<Rightarrow> address" where
  "ucontext_get_fp (Darwin_uc c) = context_fp c"
| "ucontext_get_fp (FreeBSD_uc g) = gp_x g REG_FP"
| "ucontext_get_fp (OpenBSD_uc s) = sc_x s REG_FP"
| "ucontext_get_fp (NetBSD_uc r) = r NetBSD_REG_FP"

text \<open>The link register, read in place at lines 222 and 880-886.\<close>

fun ucontext_get_lr :: "ucontext \<Rightarrow> address" where
  "ucontext_get_lr (Darwin_uc c) = context_lr c"
| "ucontext_get_lr (FreeBSD_uc g) = gp_lr g"
| "ucontext_get_lr (OpenBSD_uc s) = sc_lr s"
| "ucontext_get_lr (NetBSD_uc r) = r NetBSD_REG_LR"

text \<open>General purpose register number n, as os::print_context reads it (lines 563-598
  and 1236-1245).\<close>

fun ucontext_get_x :: "ucontext \<Rightarrow> nat \<Rightarrow> 64 word" where
  "ucontext_get_x (Darwin_uc c) n = context_x c n"
| "ucontext_get_x (FreeBSD_uc g) n = gp_x g n"
| "ucontext_get_x (OpenBSD_uc s) n = sc_x s n"
| "ucontext_get_x (NetBSD_uc r) n = r n"

text \<open>The status flags: cpsr on macOS (line 604), spsr elsewhere.\<close>

fun ucontext_get_status :: "ucontext \<Rightarrow> 64 word" where
  "ucontext_get_status (Darwin_uc c) = ucast (context_cpsr c)"
| "ucontext_get_status (FreeBSD_uc g) = gp_spsr g"
| "ucontext_get_status (OpenBSD_uc s) = sc_spsr s"
| "ucontext_get_status (NetBSD_uc r) = r NetBSD_REG_SPSR"

subsection \<open>Frames and code blobs\<close>

text \<open>
  A frame as the constructor frame(sp, fp, pc) builds it: the unextended stack pointer
  starts as sp. The default constructor frame() leaves every field NULL.
\<close>

record frame =
  frame_sp :: address
  frame_unextended_sp :: address
  frame_fp :: address
  frame_pc :: address

definition mk_frame :: "address \<Rightarrow> address \<Rightarrow> address \<Rightarrow> frame" where
  "mk_frame sp fp pc = \<lparr>frame_sp = sp, frame_unextended_sp = sp, frame_fp = fp, frame_pc = pc\<rparr>"

record CompiledMethod =
  has_unsafe_access :: bool

record CodeBlob =
  is_nmethod :: bool
  is_frame_complete_at :: "address \<Rightarrow> bool"
  as_compiled_method_or_null :: "CompiledMethod option"

text \<open>One AArch64 instruction is four bytes: NativeInstruction::instruction_size and
  NativeCall::instruction_size.\<close>

definition NativeInstruction_instruction_size :: "64 word" where
  "NativeInstruction_instruction_size = 4"

definition NativeCall_instruction_size :: "64 word" where
  "NativeCall_instruction_size = 4"

subsection \<open>Signals\<close>

datatype signal =
    SIGILL | SIGTRAP | SIGFPE | SIGBUS | SIGSEGV | SIGPIPE | SIGXFSZ | SIGOTHER nat

text \<open>The si_code values the handler compares with; every other value is SI_OTHER.\<close>

datatype si_code_t = FPE_INTDIV | FPE_FLTDIV | FPE_NOOP | SI_OTHER int

record siginfo =
  si_addr :: address
  si_code :: si_code_t

subsection \<open>Threads\<close>

datatype JavaThreadState =
    thread_uninitialized | thread_new | thread_in_native | thread_in_vm
  | thread_in_Java | thread_blocked

text \<open>
  The part of a JavaThread that the handler reads or writes. The class itself is declared
  outside these sources. The four address tests are member functions of the thread
  (thread->on_local_stack(addr) and so on, in section 4.3 of the specification a pure
  address-range test per zone); they are taken as they come, as fields of the record.
  The state of the guard zones is one flag per disabling operation.
\<close>

record JavaThread =
  thread_state :: JavaThreadState
  on_local_stack :: "address \<Rightarrow> bool"
  in_stack_yellow_reserved_zone :: "address \<Rightarrow> bool"
  in_stack_reserved_zone :: "address \<Rightarrow> bool"
  in_stack_red_zone :: "address \<Rightarrow> bool"
  yellow_reserved_zone_disabled :: bool
  reserved_zone_disabled :: bool
  red_zone_disabled :: bool
  reserved_stack_activation :: address
  saved_exception_pc :: address
  doing_unsafe_access :: bool

text \<open>
  Modelled from the spec: JavaThread::disable_stack_yellow_reserved_zone,
  disable_stack_reserved_zone and disable_stack_red_zone are defined outside these
  sources. Section 4.3 has them as disableYellow, disableReserved and disableRed,
  idempotent and one-way: each sets its flag and changes nothing else.
\<close>

definition disable_stack_yellow_reserved_zone :: "JavaThread \<Rightarrow> JavaThread" where
  "disable_stack_yellow_reserved_zone thread = thread\<lparr>yellow_reserved_zone_disabled := True\<rparr>"

definition disable_stack_reserved_zone :: "JavaThread \<Rightarrow> JavaThread" where
  "disable_stack_reserved_zone thread = thread\<lparr>reserved_zone_disabled := True\<rparr>"

definition disable_stack_red_zone :: "JavaThread \<Rightarrow> JavaThread" where
  "disable_stack_red_zone thread = thread\<lparr>red_zone_disabled := True\<rparr>"

text \<open>
  Modelled from the spec: JavaThread::set_reserved_stack_activation and
  set_saved_exception_pc are defined outside these sources. Section 4.3 has the first
  record an activation point on the thread; the second keeps the faulting pc for the
  stub. Each writes its field and changes nothing else.
\<close>

definition set_reserved_stack_activation :: "address \<Rightarrow> JavaThread \<Rightarrow> JavaThread" where
  "set_reserved_stack_activation a thread = thread\<lparr>reserved_stack_activation := a\<rparr>"

definition set_saved_exception_pc :: "address \<Rightarrow> JavaThread \<Rightarrow> JavaThread" where
  "set_saved_exception_pc a thread = thread\<lparr>saved_exception_pc := a\<rparr>"

text \<open>The current thread, Thread::current_or_null_safe(): NULL is None.\<close>

datatype Thread = Java_thread JavaThread | VM_thread | Other_thread

datatype ImplicitExceptionKind = IMPLICIT_NULL | IMPLICIT_DIVIDE_BY_ZERO | STACK_OVERFLOW

subsection \<open>The runtime around the handler\<close>

text \<open>
  Everything the handler asks of the rest of the virtual machine and of the operating
  system is a field of the environment: the build target, process-wide variables, and
  the queries whose code lies outside these sources. A query is a function of its
  arguments. SafeFetchRegistry is the table of section 4.2 of the specification, a
  lookup from a fault pc to an optional resume pc that is fixed after start-up.
  check_crash_protection is True when os::ThreadCrashProtection::check_crash_protection
  does not return: the thread had installed a protected region and control jumps back
  to it (section 5). handle_unsafe_access stands for its result, the pc to resume at.
  The last five fields are the values that procctl and sysctlbyname return and store
  at lines 1009 and 1046 and the result of os::vm_page_size(), all of the C type int.
\<close>

record env =
  os_family :: os_variant
  signal_handlers_are_installed :: bool
  check_crash_protection :: "signal \<Rightarrow> Thread option \<Rightarrow> bool"
  chained_handler :: "signal \<Rightarrow> siginfo option \<Rightarrow> ucontext option \<Rightarrow> bool"
  CAN_SHOW_REGISTERS_ON_ASSERT :: bool
  g_assert_poison :: address
  handle_assert_poison_fault :: "ucontext option \<Rightarrow> address \<Rightarrow> bool"
  SafeFetchRegistry :: "address \<Rightarrow> address option"
  Interpreter_contains :: "address \<Rightarrow> bool"
  find_blob :: "address \<Rightarrow> CodeBlob option"
  find_blob_unsafe :: "address \<Rightarrow> CodeBlob option"
  is_first_java_frame :: "frame \<Rightarrow> bool"
  is_java_frame :: "frame \<Rightarrow> bool"
  is_interpreted_frame :: "frame \<Rightarrow> bool"
  java_sender :: "frame \<Rightarrow> frame"
  interpreter_frame_initial_sp_offset :: int
  look_for_reserved_stack_annotated_method :: "JavaThread \<Rightarrow> frame \<Rightarrow> frame"
  continuation_for_implicit_exception ::
    "JavaThread \<Rightarrow> address \<Rightarrow> ImplicitExceptionKind \<Rightarrow> address"
  get_handle_wrong_method_stub :: address
  get_poll_stub :: "address \<Rightarrow> address"
  handle_unsafe_access :: "JavaThread \<Rightarrow> address \<Rightarrow> address"
  is_sigill_zombie_not_entrant :: "address \<Rightarrow> bool"
  is_poll_address :: "address \<Rightarrow> bool"
  needs_explicit_null_check :: "64 word \<Rightarrow> bool"
  find_slowcase_pc :: "address \<Rightarrow> address"
  is_memory_serialize_page :: "JavaThread \<Rightarrow> address \<Rightarrow> bool"
  procctl_ret :: "32 word"
  procctl_status :: "32 word"
  sysctl_ret :: "32 word"
  sysctl_guard_pages :: "32 word"
  vm_page_size :: "32 word"

text \<open>
  Modelled from the spec: StubRoutines::is_safefetch_fault and
  continuation_for_safefetch_fault are defined outside these sources. Section 4.2 has
  lookup(pc) -> Option<resumePC>: a pc is a SafeFetch fault when the registry has an
  entry for it, and the continuation is the resume pc of that entry.
\<close>

definition is_safefetch_fault :: "env \<Rightarrow> address \<Rightarrow> bool" where
  "is_safefetch_fault e pc = (SafeFetchRegistry e pc \<noteq> None)"

definition continuation_for_safefetch_fault :: "env \<Rightarrow> address \<Rightarrow> address" where
  "continuation_for_safefetch_fault e pc =
     (case SafeFetchRegistry e pc of Some resume_pc \<Rightarrow> resume_pc | None \<Rightarrow> 0)"

section \<open>Frame reconstruction\<close>

text \<open>os::fetch_frame_from_context(const void*), lines 189-194 and 846-851, for a
  context that is not NULL.\<close>

definition fetch_frame_from_context :: "ucontext \<Rightarrow> frame" where
  "fetch_frame_from_context uc =
     mk_frame (ucontext_get_sp uc) (ucontext_get_fp uc) (ucontext_get_pc uc)"

text \<open>
  os::Bsd::get_frame_at_stack_banging_point, lines 196-234 and 853-899. The result is
  None where the source returns false, and Some of the frame stored through fr where it
  returns true. The assertions are compiled out of a product build and are left out.
\<close>

definition get_frame_at_stack_banging_point ::
    "env \<Rightarrow> JavaThread \<Rightarrow> ucontext \<Rightarrow> frame option" where
  "get_frame_at_stack_banging_point e thread uc =
     (let pc = ucontext_get_pc uc in
      if Interpreter_contains e pc then
        (let fr = fetch_frame_from_context uc in
         if \<not> is_first_java_frame e fr then Some (java_sender e fr) else Some fr)
      else
        (case find_blob e pc of
           None \<Rightarrow> None
         | Some cb \<Rightarrow>
             if \<not> is_nmethod cb then None
             else if is_frame_complete_at cb pc then None
             else
               (let fp = ucontext_get_fp uc;
                    sp = ucontext_get_sp uc;
                    pc = ucontext_get_lr uc - NativeInstruction_instruction_size;
                    fr = mk_frame sp fp pc
                in if \<not> is_java_frame e fr then Some (java_sender e fr) else Some fr)))"

section \<open>The signal handler JVM_handle_bsd_signal\<close>

text \<open>
  What a call of the handler comes to. Resume, RedirectTo and ForwardToChain are the
  places where the source returns true (or 1): with the context untouched or rewritten
  by the SafeFetch check, after os::Bsd::ucontext_set_pc(uc, stub), and after the chained
  handler took the signal. Unhandled is return false. Fatal pc is
  VMError::report_and_die with that pc, Fatal_Unimplemented the call of Unimplemented(),
  and CrashProtectionJump the longjmp out of check_crash_protection; none of the three
  returns to the caller.
\<close>

datatype ClassificationResult =
    Resume | RedirectTo address | ForwardToChain | Unhandled
  | Fatal address | Fatal_Unimplemented | CrashProtectionJump

fun return_value :: "ClassificationResult \<Rightarrow> bool option" where
  "return_value Resume = Some True"
| "return_value (RedirectTo stub) = Some True"
| "return_value ForwardToChain = Some True"
| "return_value Unhandled = Some False"
| "return_value (Fatal pc) = None"
| "return_value Fatal_Unimplemented = None"
| "return_value CrashProtectionJump = None"

text \<open>The handler mutates the context behind ucVoid and the current thread; the result
  carries both as they are when the handler is left.\<close>

record handler_result =
  classification :: ClassificationResult
  uc_after :: "ucontext option"
  t_after :: "Thread option"

datatype ('r, 'a) step = Return 'r | Continue 'a

text \<open>Lines 295-306 and 961-972: the variable thread.\<close>

definition java_thread_of :: "env \<Rightarrow> Thread option \<Rightarrow> JavaThread option" where
  "java_thread_of e t =
     (if signal_handlers_are_installed e then
        (case t of
           Some (Java_thread thread) \<Rightarrow> Some thread
         | Some VM_thread \<Rightarrow> None
         | Some Other_thread \<Rightarrow> None
         | None \<Rightarrow> None)
      else None)"

text \<open>Lines 287-293 and 953-959, compiled in only with CAN_SHOW_REGISTERS_ON_ASSERT.\<close>

definition assert_poison_check ::
    "env \<Rightarrow> signal \<Rightarrow> siginfo option \<Rightarrow> ucontext option \<Rightarrow> bool" where
  "assert_poison_check e sig info ucVoid =
     (CAN_SHOW_REGISTERS_ON_ASSERT e \<and> (sig = SIGSEGV \<or> sig = SIGBUS) \<and>
      (case info of
         None \<Rightarrow> False
       | Some i \<Rightarrow> si_addr i = g_assert_poison e \<and>
                   handle_assert_poison_fault e ucVoid (si_addr i)))"

text \<open>Lines 308-315 and 974-981, "Handle SafeFetch faults": Some of the rewritten
  context where the source returns 1, None where it goes on.\<close>

definition safefetch_check :: "env \<Rightarrow> ucontext option \<Rightarrow> ucontext option" where
  "safefetch_check e ucVoid =
     (case ucVoid of
        None \<Rightarrow> None
      | Some uc \<Rightarrow>
          (let pc = ucontext_get_pc uc in
           if pc \<noteq> 0 \<and> is_safefetch_fault e pc
           then Some (ucontext_set_pc uc (continuation_for_safefetch_fault e pc))
           else None))"

subsection \<open>Stack overflow\<close>

text \<open>Lines 336-353 and 1059-1076: Some activation where the source disables the
  reserved zone and returns 1.\<close>

definition reserved_stack_activation_frame ::
    "env \<Rightarrow> JavaThread \<Rightarrow> ucontext \<Rightarrow> address \<Rightarrow> frame option" where
  "reserved_stack_activation_frame e thread uc addr =
     (if in_stack_reserved_zone thread addr then
        (case get_frame_at_stack_banging_point e thread uc of
           None \<Rightarrow> None
         | Some fr \<Rightarrow>
             (let activation = look_for_reserved_stack_annotated_method e thread fr in
              if frame_sp activation \<noteq> 0 then Some activation else None))
      else None)"

text \<open>Lines 344-349 and 1067-1072. fp is an intptr_t pointer, so adding the offset
  moves it by eight bytes per unit.\<close>

definition activation_address :: "env \<Rightarrow> frame \<Rightarrow> address" where
  "activation_address e activation =
     (if is_interpreted_frame e activation
      then frame_fp activation + word_of_int (8 * interpreter_frame_initial_sp_offset e)
      else frame_unextended_sp activation)"

text \<open>
  Lines 331-369 and 1055-1097, from "check if fault address is within thread stack".
  Return is return 1; Continue carries the thread and the variable stub.
\<close>

definition stack_overflow_checks ::
    "env \<Rightarrow> ucontext \<Rightarrow> JavaThread \<Rightarrow> address \<Rightarrow> address \<Rightarrow>
     (ClassificationResult \<times> JavaThread, JavaThread \<times> address) step" where
  "stack_overflow_checks e uc thread pc addr =
     (if on_local_stack thread addr then
        if in_stack_yellow_reserved_zone thread addr then
          if thread_state thread = thread_in_Java then
            (case reserved_stack_activation_frame e thread uc addr of
               Some activation \<Rightarrow>
                 Return (Resume,
                   set_reserved_stack_activation (activation_address e activation)
                     (disable_stack_reserved_zone thread))
             | None \<Rightarrow>
                 (let thread1 = disable_stack_yellow_reserved_zone thread in
                  Continue (thread1,
                    continuation_for_implicit_exception e thread1 pc STACK_OVERFLOW)))
          else Return (Resume, disable_stack_yellow_reserved_zone thread)
        else if in_stack_red_zone thread addr then Continue (disable_stack_red_zone thread, 0)
        else Continue (thread, 0)
      else Continue (thread, 0))"

text \<open>macOS, lines 327-370: segmentation and bus faults.\<close>

definition stack_overflow_apple ::
    "env \<Rightarrow> signal \<Rightarrow> siginfo \<Rightarrow> ucontext \<Rightarrow> JavaThread \<Rightarrow> address \<Rightarrow>
     (ClassificationResult \<times> JavaThread, JavaThread \<times> address) step" where
  "stack_overflow_apple e sig info uc thread pc =
     (if sig = SIGSEGV \<or> sig = SIGBUS
      then stack_overflow_checks e uc thread pc (si_addr info)
      else Continue (thread, 0))"

text \<open>
  FreeBSD, lines 1004-1052: the fault address moved down by the kernel's stack guard
  pages, unless procctl reports the stack gap disabled. PROC_STACKGAP_DISABLE is 2.
  ret, status and guard_pages are variables of the C type int and os::vm_page_size()
  returns an int, so all of them are 32 bit words read as signed. The product of line
  1049 is the int multiplication, taken in 32 bits with wrap-around, and the int is
  sign-extended to the width of the pointer when it is subtracted from addr.
\<close>

definition freebsd_stack_guard_workaround :: "env \<Rightarrow> address \<Rightarrow> address" where
  "freebsd_stack_guard_workaround e addr =
     (if procctl_ret e = - 1 \<or> (procctl_status e AND 2) = 0 then
        if sysctl_ret e = 0 \<and> 0 < sint (sysctl_guard_pages e)
        then addr - scast (sysctl_guard_pages e * vm_page_size e)
        else addr
      else addr)"

text \<open>The other systems, lines 1002-1098: segmentation faults only.\<close>

definition stack_overflow_bsd ::
    "env \<Rightarrow> signal \<Rightarrow> siginfo \<Rightarrow> ucontext \<Rightarrow> JavaThread \<Rightarrow> address \<Rightarrow>
     (ClassificationResult \<times> JavaThread, JavaThread \<times> address) step" where
  "stack_overflow_bsd e sig info uc thread pc =
     (if sig = SIGSEGV then
        (let addr = si_addr info;
             addr = (if os_family e = FreeBSD then freebsd_stack_guard_workaround e addr
                     else addr)
         in stack_overflow_checks e uc thread pc addr)
      else Continue (thread, 0))"

subsection \<open>Rules that depend on the thread state\<close>

text \<open>Lines 402-404 and 1117-1119: the code blob at pc is a compiled method with the
  unsafe access flag.\<close>

definition nm_has_unsafe_access :: "env \<Rightarrow> address \<Rightarrow> bool" where
  "nm_has_unsafe_access e pc =
     (case find_blob_unsafe e pc of
        None \<Rightarrow> False
      | Some cb \<Rightarrow>
          (case as_compiled_method_or_null cb of
             None \<Rightarrow> False
           | Some nm \<Rightarrow> has_unsafe_access nm))"

text \<open>
  macOS, lines 377-435. The argument stub is the variable as the stack overflow code left
  it; Continue carries its new value, and Return is the call of Unimplemented().
\<close>

definition state_rules_apple ::
    "env \<Rightarrow> signal \<Rightarrow> siginfo \<Rightarrow> JavaThread \<Rightarrow> address \<Rightarrow> address \<Rightarrow>
     (ClassificationResult, address) step" where
  "state_rules_apple e sig info thread pc stub =
     (if thread_state thread = thread_in_Java \<and> stub = 0 then
        if sig = SIGILL \<and> is_sigill_zombie_not_entrant e pc then
          Continue (get_handle_wrong_method_stub e)
        else if (sig = SIGSEGV \<or> sig = SIGBUS) \<and> is_poll_address e (si_addr info) then
          Continue (get_poll_stub e pc)
        else if sig = SIGBUS \<and> needs_explicit_null_check e (si_addr info) then
          (if nm_has_unsafe_access e pc
           then Continue (handle_unsafe_access e thread (pc + NativeCall_instruction_size))
           else Continue stub)
        else if sig = SIGFPE \<and> (si_code info = FPE_INTDIV \<or> si_code info = FPE_FLTDIV) then
          Continue (continuation_for_implicit_exception e thread pc IMPLICIT_DIVIDE_BY_ZERO)
        else if sig = SIGFPE \<and> si_code info = FPE_NOOP then
          Return Fatal_Unimplemented
        else if (sig = SIGSEGV \<or> sig = SIGBUS) \<and>
                \<not> needs_explicit_null_check e (si_addr info) then
          Continue (continuation_for_implicit_exception e thread pc IMPLICIT_NULL)
        else Continue stub
      else if (thread_state thread = thread_in_vm \<or> thread_state thread = thread_in_native) \<and>
              sig = SIGBUS \<and> doing_unsafe_access thread then
        Continue (handle_unsafe_access e thread (pc + NativeCall_instruction_size))
      else Continue stub)"

text \<open>The other systems, lines 1100-1144: the new value of stub.\<close>

definition state_rules_bsd ::
    "env \<Rightarrow> signal \<Rightarrow> siginfo \<Rightarrow> JavaThread \<Rightarrow> address \<Rightarrow> address \<Rightarrow> address" where
  "state_rules_bsd e sig info thread pc stub =
     (if thread_state thread = thread_in_Java then
        if (sig = SIGILL \<or> sig = SIGTRAP) \<and> is_sigill_zombie_not_entrant e pc then
          get_handle_wrong_method_stub e
        else if sig = SIGSEGV \<and> is_poll_address e (si_addr info) then
          get_poll_stub e pc
        else if sig = SIGBUS then
          (if nm_has_unsafe_access e pc
           then handle_unsafe_access e thread (pc + NativeCall_instruction_size)
           else stub)
        else if sig = SIGFPE \<and> (si_code info = FPE_INTDIV \<or> si_code info = FPE_FLTDIV) then
          continuation_for_implicit_exception e thread pc IMPLICIT_DIVIDE_BY_ZERO
        else if sig = SIGSEGV \<and> \<not> needs_explicit_null_check e (si_addr info) then
          continuation_for_implicit_exception e thread pc IMPLICIT_NULL
        else stub
      else if thread_state thread = thread_in_vm \<and> sig = SIGBUS \<and>
              doing_unsafe_access thread then
        handle_unsafe_access e thread (pc + NativeCall_instruction_size)
      else stub)"

subsection \<open>The checks after the state rules\<close>

text \<open>Lines 437-444 and 1146-1153, jni_fast_GetField: the new value of stub.\<close>

definition jni_fast_getfield_check ::
    "env \<Rightarrow> signal \<Rightarrow> address \<Rightarrow> address \<Rightarrow> address" where
  "jni_fast_getfield_check e sig pc stub =
     (if sig = SIGSEGV \<or> sig = SIGBUS then
        (let addr = find_slowcase_pc e pc in
         if addr \<noteq> - 1 then addr else stub)
      else stub)"

text \<open>Lines 450-455 and 1159-1164: the test in front of
  os::block_on_serialize_page_trap(); return true.\<close>

definition serialize_page_check ::
    "env \<Rightarrow> signal \<Rightarrow> siginfo \<Rightarrow> JavaThread \<Rightarrow> bool" where
  "serialize_page_check e sig info thread =
     (sig = SIGSEGV \<and> is_memory_serialize_page e thread (si_addr info))"

subsection \<open>The block under if (info != NULL && uc != NULL && thread != NULL)\<close>

text \<open>macOS, lines 323-456. Return is a return inside the block; Continue carries the
  thread and the variable stub to the code after the block.\<close>

definition classify_apple ::
    "env \<Rightarrow> signal \<Rightarrow> siginfo \<Rightarrow> ucontext \<Rightarrow> JavaThread \<Rightarrow>
     (ClassificationResult \<times> JavaThread, JavaThread \<times> address) step" where
  "classify_apple e sig info uc thread =
     (let pc = ucontext_get_pc uc in
      case stack_overflow_apple e sig info uc thread pc of
        Return r \<Rightarrow> Return r
      | Continue (thread1, stub1) \<Rightarrow>
          (case state_rules_apple e sig info thread1 pc stub1 of
             Return c \<Rightarrow> Return (c, thread1)
           | Continue stub2 \<Rightarrow>
               (let stub3 = jni_fast_getfield_check e sig pc stub2 in
                if serialize_page_check e sig info thread1 then Return (Resume, thread1)
                else Continue (thread1, stub3))))"

text \<open>The other systems, lines 998-1165.\<close>

definition classify_bsd ::
    "env \<Rightarrow> signal \<Rightarrow> siginfo \<Rightarrow> ucontext \<Rightarrow> JavaThread \<Rightarrow>
     (ClassificationResult \<times> JavaThread, JavaThread \<times> address) step" where
  "classify_bsd e sig info uc thread =
     (let pc = ucontext_get_pc uc in
      case stack_overflow_bsd e sig info uc thread pc of
        Return r \<Rightarrow> Return r
      | Continue (thread1, stub1) \<Rightarrow>
          (let stub2 = state_rules_bsd e sig info thread1 pc stub1;
               stub3 = jni_fast_getfield_check e sig pc stub2
           in if serialize_page_check e sig info thread1 then Return (Resume, thread1)
              else Continue (thread1, stub3)))"

subsection \<open>The end of the handler\<close>

text \<open>
  Lines 458-489 and 1167-1198. thread is the variable thread (None is NULL), pc and stub
  the variables of those names. A stub other than NULL is only ever set inside the block
  above, where uc is not NULL.
\<close>

definition handler_tail ::
    "env \<Rightarrow> signal \<Rightarrow> siginfo option \<Rightarrow> ucontext option \<Rightarrow> Thread option \<Rightarrow>
     JavaThread option \<Rightarrow> address \<Rightarrow> address \<Rightarrow> bool \<Rightarrow> handler_result" where
  "handler_tail e sig info ucVoid t thread pc stub abort_if_unrecognized =
     (if stub \<noteq> 0 then
        \<lparr>classification = RedirectTo stub,
         uc_after = map_option (\<lambda>uc. ucontext_set_pc uc stub) ucVoid,
         t_after = (case thread of
                      Some th \<Rightarrow> Some (Java_thread (set_saved_exception_pc pc th))
                    | None \<Rightarrow> t)\<rparr>
      else
        (let t1 = (case thread of Some th \<Rightarrow> Some (Java_thread th) | None \<Rightarrow> t) in
         if chained_handler e sig info ucVoid then
           \<lparr>classification = ForwardToChain, uc_after = ucVoid, t_after = t1\<rparr>
         else if \<not> abort_if_unrecognized then
           \<lparr>classification = Unhandled, uc_after = ucVoid, t_after = t1\<rparr>
         else
           (let pc1 = (if pc = 0 then
                         (case ucVoid of Some uc \<Rightarrow> ucontext_get_pc uc | None \<Rightarrow> pc)
                       else pc)
            in \<lparr>classification = Fatal pc1, uc_after = ucVoid, t_after = t1\<rparr>)))"

subsection \<open>The handler\<close>

text \<open>
  JVM_handle_bsd_signal(sig, info, ucVoid, abort_if_unrecognized), lines 255-490 on
  macOS and 921-1199 elsewhere. The argument t is the result of
  Thread::current_or_null_safe(); classify is the block of the build target. The two
  copies differ only inside that block. SignalHandlerMark, ThreadWXEnable and the lines
  printed on tty change nothing that is modelled and are left out.
\<close>

definition handle_signal ::
    "(env \<Rightarrow> signal \<Rightarrow> siginfo \<Rightarrow> ucontext \<Rightarrow> JavaThread \<Rightarrow>
      (ClassificationResult \<times> JavaThread, JavaThread \<times> address) step) \<Rightarrow>
     env \<Rightarrow> signal \<Rightarrow> siginfo option \<Rightarrow> ucontext option \<Rightarrow> Thread option \<Rightarrow> bool \<Rightarrow>
     handler_result" where
  "handle_signal classify e sig info ucVoid t abort_if_unrecognized =
     (if check_crash_protection e sig t then
        \<lparr>classification = CrashProtectionJump, uc_after = ucVoid, t_after = t\<rparr>
      else if sig = SIGPIPE \<or> sig = SIGXFSZ then
        (if chained_handler e sig info ucVoid
         then \<lparr>classification = Resume, uc_after = ucVoid, t_after = t\<rparr>
         else \<lparr>classification = Resume, uc_after = ucVoid, t_after = t\<rparr>)
      else if assert_poison_check e sig info ucVoid then
        \<lparr>classification = Resume, uc_after = ucVoid, t_after = t\<rparr>
      else
        (case safefetch_check e ucVoid of
           Some uc1 \<Rightarrow> \<lparr>classification = Resume, uc_after = Some uc1, t_after = t\<rparr>
         | None \<Rightarrow>
             if info \<noteq> None \<and> ucVoid \<noteq> None \<and> java_thread_of e t \<noteq> None then
               (case classify e sig (the info) (the ucVoid) (the (java_thread_of e t)) of
                  Return (c, thread1) \<Rightarrow>
                    \<lparr>classification = c, uc_after = ucVoid,
                     t_after = Some (Java_thread thread1)\<rparr>
                | Continue (thread1, stub) \<Rightarrow>
                    handler_tail e sig info ucVoid t (Some thread1)
                      (ucontext_get_pc (the ucVoid)) stub abort_if_unrecognized)
             else
               handler_tail e sig info ucVoid t (java_thread_of e t) 0 0
                 abort_if_unrecognized))"

definition JVM_handle_bsd_signal ::
    "env \<Rightarrow> signal \<Rightarrow> siginfo option \<Rightarrow> ucontext option \<Rightarrow> Thread option \<Rightarrow> bool \<Rightarrow>
     handler_result" where
  "JVM_handle_bsd_signal e sig info ucVoid t abort_if_unrecognized =
     (if os_family e = Apple
      then handle_signal classify_apple e sig info ucVoid t abort_if_unrecognized
      else handle_signal classify_bsd e sig info ucVoid t abort_if_unrecognized)"

section \<open>Vocabulary of the properties\<close>

text \<open>The signals for which the build target runs the stack overflow code: line 327 on
  macOS, line 1002 elsewhere.\<close>

definition guard_zone_signal :: "env \<Rightarrow> signal \<Rightarrow> bool" where
  "guard_zone_signal e sig = (sig = SIGSEGV \<or> (os_family e = Apple \<and> sig = SIGBUS))"

text \<open>The address that the stack overflow code tests against the zones: the fault
  address, on FreeBSD after the guard page workaround.\<close>

definition guard_zone_address :: "env \<Rightarrow> siginfo \<Rightarrow> address" where
  "guard_zone_address e info =
     (if os_family e = FreeBSD then freebsd_stack_guard_workaround e (si_addr info)
      else si_addr info)"

text \<open>The thread that a result of the classifying block carries, and the thread as
  the stack overflow code (lines 331-369 and 1055-1097) leaves it.\<close>

definition step_thread ::
    "(ClassificationResult \<times> JavaThread, JavaThread \<times> address) step \<Rightarrow> JavaThread" where
  "step_thread r = (case r of Return (c, th) \<Rightarrow> th | Continue (th, stub) \<Rightarrow> th)"

definition thread_after_stack_overflow_checks ::
    "env \<Rightarrow> ucontext \<Rightarrow> JavaThread \<Rightarrow> address \<Rightarrow> JavaThread" where
  "thread_after_stack_overflow_checks e uc thread addr =
     step_thread (stack_overflow_checks e uc thread (ucontext_get_pc uc) addr)"

section \<open>The handler as a list of rules\<close>

text \<open>
  Section 4.5 of the specification reads the handler as a pipeline of rules, each a
  predicate and an action, of which the first that matches decides. A rule maps a fault
  to None where its predicate fails and to Some of its classification where it holds;
  first_match runs a list of rules in order.
\<close>

fun first_match :: "('a \<Rightarrow> 'b option) list \<Rightarrow> 'a \<Rightarrow> 'b option" where
  "first_match [] x = None"
| "first_match (r # rs) x = (case r x of Some y \<Rightarrow> Some y | None \<Rightarrow> first_match rs x)"

text \<open>A fault as the handler receives it, and a fault inside the classifying block,
  where the signal information, the context and the Java thread are present.\<close>

type_synonym fault =
  "env \<times> signal \<times> siginfo option \<times> ucontext option \<times> Thread option \<times> bool"

type_synonym block_fault = "env \<times> signal \<times> siginfo \<times> ucontext \<times> JavaThread"

type_synonym rule = "fault \<Rightarrow> ClassificationResult option"

type_synonym block_rule = "block_fault \<Rightarrow> ClassificationResult option"

subsection \<open>The rules outside the classifying block\<close>

definition rule_crash_protection :: rule where
  "rule_crash_protection = (\<lambda>(e, sig, info, ucVoid, t, abort_if_unrecognized).
     if check_crash_protection e sig t then Some CrashProtectionJump else None)"

definition rule_ignorable :: rule where
  "rule_ignorable = (\<lambda>(e, sig, info, ucVoid, t, abort_if_unrecognized).
     if sig = SIGPIPE \<or> sig = SIGXFSZ then Some Resume else None)"

definition rule_assert_poison :: rule where
  "rule_assert_poison = (\<lambda>(e, sig, info, ucVoid, t, abort_if_unrecognized).
     if assert_poison_check e sig info ucVoid then Some Resume else None)"

definition rule_safefetch :: rule where
  "rule_safefetch = (\<lambda>(e, sig, info, ucVoid, t, abort_if_unrecognized).
     if safefetch_check e ucVoid \<noteq> None then Some Resume else None)"

definition rule_chained_handler :: rule where
  "rule_chained_handler = (\<lambda>(e, sig, info, ucVoid, t, abort_if_unrecognized).
     if chained_handler e sig info ucVoid then Some ForwardToChain else None)"

definition rule_unhandled :: rule where
  "rule_unhandled = (\<lambda>(e, sig, info, ucVoid, t, abort_if_unrecognized).
     if \<not> abort_if_unrecognized then Some Unhandled else None)"

definition rule_fatal :: rule where
  "rule_fatal = (\<lambda>(e, sig, info, ucVoid, t, abort_if_unrecognized).
     Some (Fatal (case ucVoid of Some uc \<Rightarrow> ucontext_get_pc uc | None \<Rightarrow> 0)))"

subsection \<open>The rules of the classifying block\<close>

text \<open>The thread that the rules after the stack overflow code see.\<close>

definition thread_before_state_rules :: "block_fault \<Rightarrow> JavaThread" where
  "thread_before_state_rules = (\<lambda>(e, sig, info, uc, thread).
     if guard_zone_signal e sig
     then thread_after_stack_overflow_checks e uc thread (guard_zone_address e info)
     else thread)"

definition yellow_zone_fault :: "block_fault \<Rightarrow> bool" where
  "yellow_zone_fault = (\<lambda>(e, sig, info, uc, thread).
     guard_zone_signal e sig \<and> on_local_stack thread (guard_zone_address e info) \<and>
     in_stack_yellow_reserved_zone thread (guard_zone_address e info))"

definition rule_reserved_activation :: block_rule where
  "rule_reserved_activation = (\<lambda>(e, sig, info, uc, thread).
     if yellow_zone_fault (e, sig, info, uc, thread) \<and> thread_state thread = thread_in_Java \<and>
        reserved_stack_activation_frame e thread uc (guard_zone_address e info) \<noteq> None
     then Some Resume else None)"

definition rule_stack_overflow :: block_rule where
  "rule_stack_overflow = (\<lambda>(e, sig, info, uc, thread).
     if yellow_zone_fault (e, sig, info, uc, thread) \<and> thread_state thread = thread_in_Java \<and>
        reserved_stack_activation_frame e thread uc (guard_zone_address e info) = None
     then Some (RedirectTo
       (continuation_for_implicit_exception e (disable_stack_yellow_reserved_zone thread)
          (ucontext_get_pc uc) STACK_OVERFLOW))
     else None)"

definition rule_yellow_not_Java :: block_rule where
  "rule_yellow_not_Java = (\<lambda>(e, sig, info, uc, thread).
     if yellow_zone_fault (e, sig, info, uc, thread) \<and> thread_state thread \<noteq> thread_in_Java
     then Some Resume else None)"

definition rule_zombie :: block_rule where
  "rule_zombie = (\<lambda>(e, sig, info, uc, thread).
     if thread_state thread = thread_in_Java \<and>
        (sig = SIGILL \<or> (os_family e \<noteq> Apple \<and> sig = SIGTRAP)) \<and>
        is_sigill_zombie_not_entrant e (ucontext_get_pc uc)
     then Some (RedirectTo (get_handle_wrong_method_stub e)) else None)"

definition rule_poll :: block_rule where
  "rule_poll = (\<lambda>(e, sig, info, uc, thread).
     if thread_state thread = thread_in_Java \<and>
        (sig = SIGSEGV \<or> (os_family e = Apple \<and> sig = SIGBUS)) \<and>
        is_poll_address e (si_addr info)
     then Some (RedirectTo (get_poll_stub e (ucontext_get_pc uc))) else None)"

definition rule_unsafe_access_Java :: block_rule where
  "rule_unsafe_access_Java = (\<lambda>(e, sig, info, uc, thread).
     if thread_state thread = thread_in_Java \<and> sig = SIGBUS \<and>
        (os_family e = Apple \<longrightarrow> needs_explicit_null_check e (si_addr info)) \<and>
        nm_has_unsafe_access e (ucontext_get_pc uc)
     then Some (RedirectTo
       (handle_unsafe_access e (thread_before_state_rules (e, sig, info, uc, thread))
          (ucontext_get_pc uc + NativeCall_instruction_size)))
     else None)"

definition rule_divide_by_zero :: block_rule where
  "rule_divide_by_zero = (\<lambda>(e, sig, info, uc, thread).
     if thread_state thread = thread_in_Java \<and> sig = SIGFPE \<and>
        (si_code info = FPE_INTDIV \<or> si_code info = FPE_FLTDIV)
     then Some (RedirectTo
       (continuation_for_implicit_exception e
          (thread_before_state_rules (e, sig, info, uc, thread)) (ucontext_get_pc uc)
          IMPLICIT_DIVIDE_BY_ZERO))
     else None)"

definition rule_unimplemented :: block_rule where
  "rule_unimplemented = (\<lambda>(e, sig, info, uc, thread).
     if os_family e = Apple \<and> thread_state thread = thread_in_Java \<and> sig = SIGFPE \<and>
        si_code info = FPE_NOOP
     then Some Fatal_Unimplemented else None)"

definition rule_implicit_null :: block_rule where
  "rule_implicit_null = (\<lambda>(e, sig, info, uc, thread).
     if thread_state thread = thread_in_Java \<and>
        (sig = SIGSEGV \<or> (os_family e = Apple \<and> sig = SIGBUS)) \<and>
        \<not> needs_explicit_null_check e (si_addr info)
     then Some (RedirectTo
       (continuation_for_implicit_exception e
          (thread_before_state_rules (e, sig, info, uc, thread)) (ucontext_get_pc uc)
          IMPLICIT_NULL))
     else None)"

definition rule_unsafe_access_runtime :: block_rule where
  "rule_unsafe_access_runtime = (\<lambda>(e, sig, info, uc, thread).
     if (thread_state thread = thread_in_vm \<or>
         (os_family e = Apple \<and> thread_state thread = thread_in_native)) \<and>
        sig = SIGBUS \<and> doing_unsafe_access thread
     then Some (RedirectTo
       (handle_unsafe_access e (thread_before_state_rules (e, sig, info, uc, thread))
          (ucontext_get_pc uc + NativeCall_instruction_size)))
     else None)"

definition rule_jni_slowcase :: block_rule where
  "rule_jni_slowcase = (\<lambda>(e, sig, info, uc, thread).
     if (sig = SIGSEGV \<or> sig = SIGBUS) \<and> find_slowcase_pc e (ucontext_get_pc uc) \<noteq> - 1
     then Some (RedirectTo (find_slowcase_pc e (ucontext_get_pc uc))) else None)"

definition rule_serialize_page :: block_rule where
  "rule_serialize_page = (\<lambda>(e, sig, info, uc, thread).
     if sig = SIGSEGV \<and>
        is_memory_serialize_page e (thread_before_state_rules (e, sig, info, uc, thread))
          (si_addr info)
     then Some Resume else None)"

text \<open>A rule of the block is a rule of the handler that needs the signal information,
  the context and the Java thread.\<close>

definition in_block :: "block_rule \<Rightarrow> rule" where
  "in_block r = (\<lambda>(e, sig, info, ucVoid, t, abort_if_unrecognized).
     if info \<noteq> None \<and> ucVoid \<noteq> None \<and> java_thread_of e t \<noteq> None
     then r (e, sig, the info, the ucVoid, the (java_thread_of e t))
     else None)"

text \<open>The rules in the order in which the source evaluates them (and in which section
  4.5 lists them).\<close>

definition block_rules_in_source_order :: "block_rule list" where
  "block_rules_in_source_order =
     [rule_reserved_activation, rule_stack_overflow, rule_yellow_not_Java,
      rule_zombie, rule_poll, rule_unsafe_access_Java, rule_divide_by_zero,
      rule_unimplemented, rule_implicit_null, rule_unsafe_access_runtime,
      rule_jni_slowcase, rule_serialize_page]"

text \<open>
  The order of priority that the code gives them. The two rules evaluated last come
  first among the rules that do not return at once: the serialization page returns
  whatever stub is set, and the jni_fast_GetField slow case overwrites the stub. On
  macOS the rules for the thread state run only while stub is NULL, so the stack
  overflow stub stands before them; elsewhere they overwrite it.
\<close>

definition block_rules_by_priority :: "os_variant \<Rightarrow> block_rule list" where
  "block_rules_by_priority os =
     [rule_reserved_activation, rule_yellow_not_Java, rule_serialize_page,
      rule_jni_slowcase] @
     (if os = Apple
      then [rule_stack_overflow, rule_zombie, rule_poll, rule_unsafe_access_Java,
            rule_divide_by_zero, rule_unimplemented, rule_implicit_null,
            rule_unsafe_access_runtime]
      else [rule_zombie, rule_poll, rule_unsafe_access_Java, rule_divide_by_zero,
            rule_unimplemented, rule_implicit_null, rule_unsafe_access_runtime,
            rule_stack_overflow])"

definition pipeline :: "block_rule list \<Rightarrow> rule list" where
  "pipeline block_rules =
     [rule_crash_protection, rule_ignorable, rule_assert_poison, rule_safefetch] @
     map in_block block_rules @
     [rule_chained_handler, rule_unhandled, rule_fatal]"

text \<open>What the classifying block decides by itself: the classification of a return
  inside the block, or the redirection to the stub it leaves; None where it leaves no
  stub and the end of the handler decides.\<close>

definition block_result ::
    "(ClassificationResult \<times> JavaThread, JavaThread \<times> address) step \<Rightarrow>
     ClassificationResult option" where
  "block_result r =
     (case r of
        Return (c, th) \<Rightarrow> Some c
      | Continue (th, stub) \<Rightarrow> if stub \<noteq> 0 then Some (RedirectTo stub) else None)"

text \<open>No stub that the runtime hands out for this pc is NULL.\<close>

definition stubs_not_null :: "env \<Rightarrow> address \<Rightarrow> bool" where
  "stubs_not_null e pc =
     ((\<forall>thread kind. continuation_for_implicit_exception e thread pc kind \<noteq> 0) \<and>
      get_handle_wrong_method_stub e \<noteq> 0 \<and>
      get_poll_stub e pc \<noteq> 0 \<and>
      (\<forall>thread. handle_unsafe_access e thread (pc + NativeCall_instruction_size) \<noteq> 0) \<and>
      find_slowcase_pc e pc \<noteq> 0)"

section \<open>A concrete runtime\<close>

text \<open>
  A small runtime on which the properties are evaluated. The thread's stack is
  0x10000-0x20000 with the red zone at 0x10000-0x11000, the yellow and reserved zones at
  0x11000-0x13000 and the reserved zone at 0x12000-0x13000. The interpreter is at
  0x3000-0x4000, one compiled method at 0x4000-0x6000 whose frame is complete from
  0x4010 on, the polling page at 0x80000 and the serialization page at 0x90000.
\<close>

definition example_thread :: "JavaThreadState \<Rightarrow> JavaThread" where
  "example_thread st =
     \<lparr>thread_state = st,
      on_local_stack = (\<lambda>a. 0x10000 \<le> a \<and> a < 0x20000),
      in_stack_yellow_reserved_zone = (\<lambda>a. 0x11000 \<le> a \<and> a < 0x13000),
      in_stack_reserved_zone = (\<lambda>a. 0x12000 \<le> a \<and> a < 0x13000),
      in_stack_red_zone = (\<lambda>a. 0x10000 \<le> a \<and> a < 0x11000),
      yellow_reserved_zone_disabled = False,
      reserved_zone_disabled = False,
      red_zone_disabled = False,
      reserved_stack_activation = 0x20000,
      saved_exception_pc = 0,
      doing_unsafe_access = False\<rparr>"

definition example_nmethod :: CodeBlob where
  "example_nmethod =
     \<lparr>is_nmethod = True,
      is_frame_complete_at = (\<lambda>pc. 0x4010 \<le> pc),
      as_compiled_method_or_null = Some \<lparr>has_unsafe_access = False\<rparr>\<rparr>"

definition example_env :: "os_variant \<Rightarrow> env" where
  "example_env os =
     \<lparr>os_family = os,
      signal_handlers_are_installed = True,
      check_crash_protection = (\<lambda>sig t. False),
      chained_handler = (\<lambda>sig info uc. False),
      CAN_SHOW_REGISTERS_ON_ASSERT = False,
      g_assert_poison = 0x70000,
      handle_assert_poison_fault = (\<lambda>uc a. True),
      SafeFetchRegistry = [0x7000 \<mapsto> 0x7008, 0x7010 \<mapsto> 0x7018],
      Interpreter_contains = (\<lambda>pc. 0x3000 \<le> pc \<and> pc < 0x4000),
      find_blob = (\<lambda>pc. if 0x4000 \<le> pc \<and> pc < 0x6000 then Some example_nmethod else None),
      find_blob_unsafe =
        (\<lambda>pc. if 0x4000 \<le> pc \<and> pc < 0x6000 then Some example_nmethod else None),
      is_first_java_frame = (\<lambda>fr. False),
      is_java_frame = (\<lambda>fr. 0x3000 \<le> frame_pc fr \<and> frame_pc fr < 0x6000),
      is_interpreted_frame = (\<lambda>fr. 0x3000 \<le> frame_pc fr \<and> frame_pc fr < 0x4000),
      java_sender = (\<lambda>fr. mk_frame (frame_fp fr + 16) (frame_fp fr + 64) 0x5104),
      interpreter_frame_initial_sp_offset = - 10,
      look_for_reserved_stack_annotated_method =
        (\<lambda>thread fr. if frame_pc fr = 0x5104 then fr else mk_frame 0 0 0),
      continuation_for_implicit_exception =
        (\<lambda>thread pc kind.
           case kind of
             STACK_OVERFLOW \<Rightarrow> 0xA000
           | IMPLICIT_NULL \<Rightarrow> 0xA100
           | IMPLICIT_DIVIDE_BY_ZERO \<Rightarrow> 0xA200),
      get_handle_wrong_method_stub = 0xA300,
      get_poll_stub = (\<lambda>pc. 0xA400),
      handle_unsafe_access = (\<lambda>thread next_pc. next_pc),
      is_sigill_zombie_not_entrant = (\<lambda>pc. False),
      is_poll_address = (\<lambda>a. 0x80000 \<le> a \<and> a < 0x81000),
      needs_explicit_null_check = (\<lambda>a. 0x1000 \<le> a),
      find_slowcase_pc = (\<lambda>pc. - 1),
      is_memory_serialize_page = (\<lambda>thread a. 0x90000 \<le> a \<and> a < 0x91000),
      procctl_ret = 0,
      procctl_status = 2,
      sysctl_ret = 0,
      sysctl_guard_pages = 1,
      vm_page_size = 4096\<rparr>"

text \<open>The same runtime with a jni_fast_GetField slow case registered for pc 0x4020.\<close>

definition example_env_slowcase :: "os_variant \<Rightarrow> env" where
  "example_env_slowcase os =
     (example_env os)\<lparr>find_slowcase_pc := (\<lambda>pc. if pc = 0x4020 then 0x4100 else - 1)\<rparr>"

text \<open>The same runtime with crash protection installed by the current thread, as
  os::ThreadCrashProtection::check_crash_protection sees it for a segmentation or bus
  fault.\<close>

definition example_env_crash_protection :: "os_variant \<Rightarrow> env" where
  "example_env_crash_protection os =
     (example_env os)\<lparr>check_crash_protection :=
        (\<lambda>sig t. (sig = SIGSEGV \<or> sig = SIGBUS) \<and> t \<noteq> None)\<rparr>"

text \<open>FreeBSD with the stack gap not disabled (status 0) and one kernel guard page of
  4096 bytes: the workaround lowers the fault address by 0x1000.\<close>

definition example_env_stack_gap :: env where
  "example_env_stack_gap = (example_env FreeBSD)\<lparr>procctl_status := 0\<rparr>"

text \<open>A runtime in which the addresses below 0x12000 need no explicit null check.\<close>

definition example_env_implicit_null :: "os_variant \<Rightarrow> env" where
  "example_env_implicit_null os =
     (example_env os)\<lparr>needs_explicit_null_check := (\<lambda>a. 0x12000 \<le> a)\<rparr>"

text \<open>A context per layout with the given pc and link register; sp is 0x12f00 and fp
  0x12f40.\<close>

definition example_uc :: "os_variant \<Rightarrow> address \<Rightarrow> address \<Rightarrow> ucontext" where
  "example_uc os pc lr =
     (case os of
        Apple \<Rightarrow>
          Darwin_uc \<lparr>context_x = (\<lambda>n. 0), context_fp = 0x12f40, context_lr = lr,
            context_sp = 0x12f00, context_pc = pc, context_cpsr = 0, context_esr = 0\<rparr>
      | FreeBSD \<Rightarrow>
          FreeBSD_uc \<lparr>gp_x = (\<lambda>n. if n = 29 then 0x12f40 else 0), gp_lr = lr,
            gp_sp = 0x12f00, gp_elr = pc, gp_spsr = 0\<rparr>
      | OpenBSD \<Rightarrow>
          OpenBSD_uc \<lparr>sc_x = (\<lambda>n. if n = 29 then 0x12f40 else 0), sc_lr = lr,
            sc_sp = 0x12f00, sc_elr = pc, sc_spsr = 0\<rparr>
      | NetBSD \<Rightarrow>
          NetBSD_uc (\<lambda>n. if n = 29 then 0x12f40 else if n = 30 then lr
                         else if n = 31 then 0x12f00 else if n = 32 then pc else 0))"

definition example_info :: "address \<Rightarrow> siginfo" where
  "example_info a = \<lparr>si_addr = a, si_code = SI_OTHER 0\<rparr>"

section \<open>Properties of the context accessors and of frame reconstruction\<close>

text \<open>
  Claim C9. For every raw context and every new program counter, ucontext_set_pc changes
  the program counter field and nothing else: the new context reads back the new pc,
  writing the old pc back gives the original context again, and the stack pointer, frame
  pointer, link register, status flags and the general purpose registers 0 to 29 read
  as before. This holds for each of the four layouts.
\<close>

theorem ucontext_set_pc_only_pc:
  "ucontext_get_pc (ucontext_set_pc uc pc) = pc \<and>
   ucontext_set_pc (ucontext_set_pc uc pc) (ucontext_get_pc uc) = uc \<and>
   ucontext_get_sp (ucontext_set_pc uc pc) = ucontext_get_sp uc \<and>
   ucontext_get_fp (ucontext_set_pc uc pc) = ucontext_get_fp uc \<and>
   ucontext_get_lr (ucontext_set_pc uc pc) = ucontext_get_lr uc \<and>
   ucontext_get_status (ucontext_set_pc uc pc) = ucontext_get_status uc \<and>
   (\<forall>n. n < 30 \<longrightarrow> ucontext_get_x (ucontext_set_pc uc pc) n = ucontext_get_x uc n)"
  by (cases uc)
     (simp_all add: NetBSD_REG_ELR_def NetBSD_REG_SP_def NetBSD_REG_FP_def NetBSD_REG_LR_def
        NetBSD_REG_SPSR_def)

theorem ucontext_set_pc_only_pc_witness:
  "ucontext_get_pc (ucontext_set_pc (example_uc NetBSD 0x4004 0x5008) 0xA000) = 0xA000 \<and>
   ucontext_get_sp (ucontext_set_pc (example_uc NetBSD 0x4004 0x5008) 0xA000) = 0x12f00 \<and>
   ucontext_get_fp (ucontext_set_pc (example_uc NetBSD 0x4004 0x5008) 0xA000) = 0x12f40 \<and>
   ucontext_get_lr (ucontext_set_pc (example_uc NetBSD 0x4004 0x5008) 0xA000) = 0x5008 \<and>
   (29::nat) < 30 \<and>
   ucontext_get_x (ucontext_set_pc (example_uc NetBSD 0x4004 0x5008) 0xA000) 29 = 0x12f40"
  using ucontext_set_pc_only_pc [of "example_uc NetBSD 0x4004 0x5008" "0xA000"]
  by (simp add: example_uc_def NetBSD_REG_SP_def NetBSD_REG_FP_def NetBSD_REG_LR_def)



section \<open>Properties of the handler\<close>

subsection \<open>Evaluating the handler on the concrete runtime\<close>

lemmas handler_eval =
  JVM_handle_bsd_signal_def handle_signal_def classify_apple_def classify_bsd_def
  stack_overflow_apple_def stack_overflow_bsd_def stack_overflow_checks_def
  freebsd_stack_guard_workaround_def reserved_stack_activation_frame_def
  get_frame_at_stack_banging_point_def fetch_frame_from_context_def mk_frame_def
  activation_address_def state_rules_apple_def state_rules_bsd_def nm_has_unsafe_access_def
  jni_fast_getfield_check_def serialize_page_check_def handler_tail_def safefetch_check_def
  is_safefetch_fault_def continuation_for_safefetch_fault_def assert_poison_check_def
  java_thread_of_def disable_stack_yellow_reserved_zone_def disable_stack_reserved_zone_def
  disable_stack_red_zone_def set_reserved_stack_activation_def set_saved_exception_pc_def
  NativeInstruction_instruction_size_def NativeCall_instruction_size_def Let_def

lemmas example_defs =
  example_env_def example_uc_def example_thread_def example_info_def example_nmethod_def
  example_env_slowcase_def example_env_crash_protection_def example_env_stack_gap_def
  example_env_implicit_null_def

subsection \<open>How the handler reaches the classifying block\<close>

lemma ucontext_get_pc_set_pc: "ucontext_get_pc (ucontext_set_pc uc pc) = pc"
  by (cases uc) simp_all

lemma ucontext_set_pc_keeps:
  "ucontext_get_sp (ucontext_set_pc uc pc) = ucontext_get_sp uc"
  "ucontext_get_fp (ucontext_set_pc uc pc) = ucontext_get_fp uc"
  "ucontext_get_lr (ucontext_set_pc uc pc) = ucontext_get_lr uc"
  by (cases uc; simp add: NetBSD_REG_ELR_def NetBSD_REG_SP_def NetBSD_REG_FP_def
      NetBSD_REG_LR_def)+

lemma java_thread_of_Some: "java_thread_of e t = Some th \<Longrightarrow> t = Some (Java_thread th)"
  by (auto simp: java_thread_of_def split: if_splits option.splits Thread.splits)

lemma handler_enters_block:
  assumes "\<not> check_crash_protection e sig t"
    and "sig \<noteq> SIGPIPE" and "sig \<noteq> SIGXFSZ"
    and "\<not> assert_poison_check e sig (Some i) (Some uc)"
    and "safefetch_check e (Some uc) = None"
    and "java_thread_of e t = Some thread"
  shows "handle_signal classify e sig (Some i) (Some uc) t abort =
     (case classify e sig i uc thread of
        Return (c, thread1) \<Rightarrow>
          \<lparr>classification = c, uc_after = Some uc, t_after = Some (Java_thread thread1)\<rparr>
      | Continue (thread1, stub) \<Rightarrow>
          handler_tail e sig (Some i) (Some uc) t (Some thread1) (ucontext_get_pc uc) stub abort)"
  using assms by (simp add: handle_signal_def split: step.splits prod.splits)

lemma JVM_handle_bsd_signal_block:
  assumes "\<not> check_crash_protection e sig t"
    and "sig \<noteq> SIGPIPE" and "sig \<noteq> SIGXFSZ"
    and "\<not> assert_poison_check e sig (Some i) (Some uc)"
    and "safefetch_check e (Some uc) = None"
    and "java_thread_of e t = Some thread"
    and "(if os_family e = Apple then classify_apple e sig i uc thread
          else classify_bsd e sig i uc thread) = r"
  shows "JVM_handle_bsd_signal e sig (Some i) (Some uc) t abort =
     (case r of
        Return (c, thread1) \<Rightarrow>
          \<lparr>classification = c, uc_after = Some uc, t_after = Some (Java_thread thread1)\<rparr>
      | Continue (thread1, stub) \<Rightarrow>
          handler_tail e sig (Some i) (Some uc) t (Some thread1) (ucontext_get_pc uc) stub abort)"
  using handler_enters_block [OF assms(1-6)] assms(7)
  by (auto simp: JVM_handle_bsd_signal_def)

lemma classify_apple_guard:
  assumes "sig = SIGSEGV \<or> sig = SIGBUS"
  shows "classify_apple e sig i uc thread =
     (case stack_overflow_checks e uc thread (ucontext_get_pc uc) (si_addr i) of
        Return r \<Rightarrow> Return r
      | Continue (thread1, stub1) \<Rightarrow>
          (case state_rules_apple e sig i thread1 (ucontext_get_pc uc) stub1 of
             Return c \<Rightarrow> Return (c, thread1)
           | Continue stub2 \<Rightarrow>
               if serialize_page_check e sig i thread1 then Return (Resume, thread1)
               else Continue (thread1,
                      jni_fast_getfield_check e sig (ucontext_get_pc uc) stub2)))"
  using assms
  by (auto simp: classify_apple_def stack_overflow_apple_def Let_def split: step.splits)

lemma classify_bsd_guard:
  assumes "os_family e \<noteq> Apple"
  shows "classify_bsd e SIGSEGV i uc thread =
     (case stack_overflow_checks e uc thread (ucontext_get_pc uc) (guard_zone_address e i) of
        Return r \<Rightarrow> Return r
      | Continue (thread1, stub1) \<Rightarrow>
          if serialize_page_check e SIGSEGV i thread1 then Return (Resume, thread1)
          else Continue (thread1,
                 jni_fast_getfield_check e SIGSEGV (ucontext_get_pc uc)
                   (state_rules_bsd e SIGSEGV i thread1 (ucontext_get_pc uc) stub1)))"
  using assms
  by (auto simp: classify_bsd_def stack_overflow_bsd_def guard_zone_address_def Let_def
      split: step.splits)

lemma classify_bsd_no_guard:
  assumes "sig \<noteq> SIGSEGV"
  shows "classify_bsd e sig i uc thread =
     Continue (thread,
       jni_fast_getfield_check e sig (ucontext_get_pc uc)
         (state_rules_bsd e sig i thread (ucontext_get_pc uc) 0))"
  using assms
  by (simp add: classify_bsd_def stack_overflow_bsd_def serialize_page_check_def Let_def)

lemma guard_zone_signal_cases:
  assumes "guard_zone_signal e sig"
  obtains "os_family e = Apple" "sig = SIGSEGV \<or> sig = SIGBUS"
    | "os_family e \<noteq> Apple" "sig = SIGSEGV"
  using assms by (cases "os_family e = Apple") (auto simp: guard_zone_signal_def)

lemma guard_zone_address_Apple:
  "os_family e = Apple \<Longrightarrow> guard_zone_address e i = si_addr i"
  by (simp add: guard_zone_address_def)

subsection \<open>The FreeBSD guard page workaround\<close>

text \<open>The product of line 1049 is a 32 bit product: one guard page of 4096 bytes lowers
  the address by 0x1000, and 0x100000 guard pages of 4096 bytes, whose product is 2^32,
  leave it where it is.\<close>

lemma freebsd_stack_guard_workaround_examples:
  "freebsd_stack_guard_workaround example_env_stack_gap 0x11800 = 0x10800"
  "freebsd_stack_guard_workaround
     (example_env_stack_gap\<lparr>sysctl_guard_pages := 0x100000\<rparr>) 0x11800 = 0x11800"
  "freebsd_stack_guard_workaround (example_env FreeBSD) 0x11800 = 0x11800"
  by (simp_all add: freebsd_stack_guard_workaround_def example_env_stack_gap_def
      example_env_def)

subsection \<open>SafeFetch\<close>

text \<open>
  Claim C1, as stated: a segmentation or bus fault at a registered SafeFetch pc makes
  the handler write the resume pc and return true, whatever the state of the thread, and
  before everything else. It fails on the code: check_crash_protection (lines 266 and
  932) is called first, and for a thread that installed crash protection it does not
  return. Here such a thread takes a segmentation fault at the registered pc 0x7010:
  control jumps away, the handler returns nothing and the pc is not rewritten.
\<close>

theorem safefetch_under_crash_protection_counterexample:
  "SafeFetchRegistry (example_env_crash_protection Apple) 0x7010 = Some 0x7018 \<and>
   ucontext_get_pc (example_uc Apple 0x7010 0x5008) = 0x7010 \<and>
   JVM_handle_bsd_signal (example_env_crash_protection Apple) SIGSEGV
       (Some (example_info 0x30000)) (Some (example_uc Apple 0x7010 0x5008))
       (Some (Java_thread (example_thread thread_in_vm))) True =
     \<lparr>classification = CrashProtectionJump,
      uc_after = Some (example_uc Apple 0x7010 0x5008),
      t_after = Some (Java_thread (example_thread thread_in_vm))\<rparr> \<and>
   return_value CrashProtectionJump = None"
  by (simp add: handler_eval example_defs)

text \<open>
  Claim C1, amended. Let (fault_pc, resume_pc) be registered in the SafeFetch registry,
  fault_pc not NULL, and let a segmentation or bus fault have fault_pc as the program
  counter of its context. Two checks of the source stand before the SafeFetch lookup for
  such a signal: when check_crash_protection jumps away the handler does not return and
  the context is untouched; when, in a build with CAN_SHOW_REGISTERS_ON_ASSERT, the
  assert poison check takes the fault the handler returns true with the context
  untouched. In every other case the handler returns true and the context then has
  resume_pc as its program counter, with stack pointer, frame pointer and link register
  as before, whatever the current thread is, whatever its state and whatever the signal
  information says: no rule of the classifying block and no chained handler is asked.
\<close>

theorem safefetch_fault_outcome:
  assumes "SafeFetchRegistry e fault_pc = Some resume_pc"
    and "fault_pc \<noteq> 0"
    and "sig = SIGSEGV \<or> sig = SIGBUS"
    and "ucontext_get_pc uc = fault_pc"
  shows "JVM_handle_bsd_signal e sig info (Some uc) t abort_if_unrecognized =
       (if check_crash_protection e sig t then
          \<lparr>classification = CrashProtectionJump, uc_after = Some uc, t_after = t\<rparr>
        else if assert_poison_check e sig info (Some uc) then
          \<lparr>classification = Resume, uc_after = Some uc, t_after = t\<rparr>
        else
          \<lparr>classification = Resume, uc_after = Some (ucontext_set_pc uc resume_pc),
           t_after = t\<rparr>) \<and>
     (\<not> check_crash_protection e sig t \<and> \<not> assert_poison_check e sig info (Some uc) \<longrightarrow>
        return_value (classification
          (JVM_handle_bsd_signal e sig info (Some uc) t abort_if_unrecognized)) = Some True \<and>
        map_option ucontext_get_pc
          (uc_after (JVM_handle_bsd_signal e sig info (Some uc) t abort_if_unrecognized)) =
          Some resume_pc \<and>
        map_option ucontext_get_sp
          (uc_after (JVM_handle_bsd_signal e sig info (Some uc) t abort_if_unrecognized)) =
          Some (ucontext_get_sp uc) \<and>
        map_option ucontext_get_fp
          (uc_after (JVM_handle_bsd_signal e sig info (Some uc) t abort_if_unrecognized)) =
          Some (ucontext_get_fp uc) \<and>
        map_option ucontext_get_lr
          (uc_after (JVM_handle_bsd_signal e sig info (Some uc) t abort_if_unrecognized)) =
          Some (ucontext_get_lr uc))"
proof -
  have H: "JVM_handle_bsd_signal e sig info (Some uc) t abort_if_unrecognized =
       (if check_crash_protection e sig t then
          \<lparr>classification = CrashProtectionJump, uc_after = Some uc, t_after = t\<rparr>
        else if assert_poison_check e sig info (Some uc) then
          \<lparr>classification = Resume, uc_after = Some uc, t_after = t\<rparr>
        else
          \<lparr>classification = Resume, uc_after = Some (ucontext_set_pc uc resume_pc),
           t_after = t\<rparr>)"
    using assms
    by (auto simp: JVM_handle_bsd_signal_def handle_signal_def safefetch_check_def
        is_safefetch_fault_def continuation_for_safefetch_fault_def Let_def)
  show ?thesis
    unfolding H by (simp add: ucontext_get_pc_set_pc ucontext_set_pc_keeps)
qed

theorem safefetch_fault_outcome_witness:
  "SafeFetchRegistry (example_env Apple) 0x7010 = Some 0x7018 \<and>
   (0x7010 :: address) \<noteq> 0 \<and>
   ucontext_get_pc (example_uc Apple 0x7010 0x5008) = 0x7010 \<and>
   \<not> check_crash_protection (example_env Apple) SIGBUS
       (Some (Java_thread (example_thread thread_in_Java))) \<and>
   \<not> assert_poison_check (example_env Apple) SIGBUS (Some (example_info 0x11800))
       (Some (example_uc Apple 0x7010 0x5008)) \<and>
   JVM_handle_bsd_signal (example_env Apple) SIGBUS (Some (example_info 0x11800))
       (Some (example_uc Apple 0x7010 0x5008))
       (Some (Java_thread (example_thread thread_in_Java))) True =
     \<lparr>classification = Resume,
      uc_after = Some (example_uc Apple 0x7018 0x5008),
      t_after = Some (Java_thread (example_thread thread_in_Java))\<rparr> \<and>
   map_option ucontext_get_pc
     (uc_after (JVM_handle_bsd_signal (example_env NetBSD) SIGSEGV (Some (example_info 8))
        (Some (example_uc NetBSD 0x7000 0x5008)) (Some VM_thread) False)) = Some 0x7008"
  using safefetch_fault_outcome
    [of "example_env Apple" "0x7010" "0x7018" SIGBUS "example_uc Apple 0x7010 0x5008"
        "Some (example_info 0x11800)" "Some (Java_thread (example_thread thread_in_Java))" True]
    safefetch_fault_outcome
    [of "example_env NetBSD" "0x7000" "0x7008" SIGSEGV "example_uc NetBSD 0x7000 0x5008"
        "Some (example_info 8)" "Some VM_thread" False]
  by (simp add: example_env_def example_uc_def assert_poison_check_def NetBSD_REG_ELR_def)

subsection \<open>Faults without signal information, context or Java thread\<close>

text \<open>
  Claim C10, as stated: with the siginfo pointer NULL, the context pointer NULL or no
  Java thread, the outcome is exactly one of five: the resume of an ignored signal, the
  SafeFetch resume, the chained handler, return false, or the fatal error. It fails on
  the code, which has two more ways out in front of these (lines 266 and 287-293). Here
  the VM thread, which is no Java thread, has crash protection installed and takes a
  segmentation fault: control jumps away and the handler returns nothing.
\<close>

theorem crash_protection_without_Java_thread_counterexample:
  "java_thread_of (example_env_crash_protection Apple) (Some VM_thread) = None \<and>
   JVM_handle_bsd_signal (example_env_crash_protection Apple) SIGSEGV
       (Some (example_info 8)) (Some (example_uc Apple 0x4020 0x5008)) (Some VM_thread)
       True =
     \<lparr>classification = CrashProtectionJump,
      uc_after = Some (example_uc Apple 0x4020 0x5008),
      t_after = Some VM_thread\<rparr> \<and>
   return_value CrashProtectionJump = None"
  by (simp add: handler_eval example_defs)

text \<open>
  Claim C10, amended. When the siginfo pointer is NULL, or the context pointer is NULL,
  or the current thread is not a Java thread (the variable thread stays NULL), the block
  that classifies the fault is skipped and the handler never installs a stub. Its outcome
  is exactly one of seven, tried in this order: the jump out of check_crash_protection;
  return true for SIGPIPE and SIGXFSZ; return true when the assert poison check takes
  the fault (builds with CAN_SHOW_REGISTERS_ON_ASSERT); return true with the rewritten
  pc for a SafeFetch fault; return true when the chained handler takes the signal;
  return false when abort_if_unrecognized is false; and the fatal error report.
\<close>

theorem no_classifier_without_info_context_thread:
  assumes "info = None \<or> ucVoid = None \<or> java_thread_of e t = None"
  shows "JVM_handle_bsd_signal e sig info ucVoid t abort_if_unrecognized =
     (if check_crash_protection e sig t then
        \<lparr>classification = CrashProtectionJump, uc_after = ucVoid, t_after = t\<rparr>
      else if sig = SIGPIPE \<or> sig = SIGXFSZ then
        \<lparr>classification = Resume, uc_after = ucVoid, t_after = t\<rparr>
      else if assert_poison_check e sig info ucVoid then
        \<lparr>classification = Resume, uc_after = ucVoid, t_after = t\<rparr>
      else
        (case safefetch_check e ucVoid of
           Some uc1 \<Rightarrow> \<lparr>classification = Resume, uc_after = Some uc1, t_after = t\<rparr>
         | None \<Rightarrow>
             if chained_handler e sig info ucVoid then
               \<lparr>classification = ForwardToChain, uc_after = ucVoid, t_after = t\<rparr>
             else if \<not> abort_if_unrecognized then
               \<lparr>classification = Unhandled, uc_after = ucVoid, t_after = t\<rparr>
             else
               \<lparr>classification =
                  Fatal (case ucVoid of Some uc \<Rightarrow> ucontext_get_pc uc | None \<Rightarrow> 0),
                uc_after = ucVoid, t_after = t\<rparr>))
     \<and> (\<forall>stub. classification (JVM_handle_bsd_signal e sig info ucVoid t abort_if_unrecognized)
            \<noteq> RedirectTo stub)"
  using assms
  by (auto simp: JVM_handle_bsd_signal_def handle_signal_def handler_tail_def Let_def
      dest: java_thread_of_Some split: option.splits)

theorem no_classifier_without_info_context_thread_witness:
  "java_thread_of (example_env Apple) (Some VM_thread) = None \<and>
   JVM_handle_bsd_signal (example_env Apple) SIGSEGV (Some (example_info 8))
       (Some (example_uc Apple 0x4020 0x5008)) (Some VM_thread) True =
     \<lparr>classification = Fatal 0x4020, uc_after = Some (example_uc Apple 0x4020 0x5008),
      t_after = Some VM_thread\<rparr> \<and>
   JVM_handle_bsd_signal (example_env Apple) SIGSEGV (Some (example_info 8))
       (Some (example_uc Apple 0x4020 0x5008)) (Some VM_thread) False =
     \<lparr>classification = Unhandled, uc_after = Some (example_uc Apple 0x4020 0x5008),
      t_after = Some VM_thread\<rparr> \<and>
   classification
     (JVM_handle_bsd_signal (example_env_crash_protection OpenBSD) SIGBUS None
        (Some (example_uc OpenBSD 0x4020 0x5008))
        (Some (Java_thread (example_thread thread_in_native))) True) = CrashProtectionJump"
  using no_classifier_without_info_context_thread
    [of "Some (example_info 8)" "Some (example_uc Apple 0x4020 0x5008)"
        "example_env Apple" "Some VM_thread" SIGSEGV True]
    no_classifier_without_info_context_thread
    [of "Some (example_info 8)" "Some (example_uc Apple 0x4020 0x5008)"
        "example_env Apple" "Some VM_thread" SIGSEGV False]
    no_classifier_without_info_context_thread
    [of None "Some (example_uc OpenBSD 0x4020 0x5008)"
        "example_env_crash_protection OpenBSD"
        "Some (Java_thread (example_thread thread_in_native))" SIGBUS True]
  by (simp add: example_env_def example_uc_def example_env_crash_protection_def
      assert_poison_check_def java_thread_of_def safefetch_check_def is_safefetch_fault_def)

subsection \<open>Stack guard zones\<close>







subsection \<open>Safepoint polls\<close>

text \<open>
  Claim C7, as stated: for a thread in Java code a segmentation fault at the polling page
  resumes in the poll stub, and a fault that matches the poll rule and a later rule is
  still a safepoint poll. It fails on the code for the rules after the chain for Java
  code: the jni_fast_GetField check (lines 439-444 and 1148-1153) overwrites the stub
  that the poll rule set. Here the fault at the polling page has its pc at a registered
  slow case, and the thread resumes at the slow case address, not in the poll stub
  0xA400.
\<close>

theorem poll_fault_at_slowcase_pc_counterexample:
  "is_poll_address (example_env_slowcase NetBSD) (si_addr (example_info 0x80000)) \<and>
   get_poll_stub (example_env_slowcase NetBSD) 0x4020 = 0xA400 \<and>
   classification
     (JVM_handle_bsd_signal (example_env_slowcase NetBSD) SIGSEGV
        (Some (example_info 0x80000)) (Some (example_uc NetBSD 0x4020 0x5008))
        (Some (Java_thread (example_thread thread_in_Java))) True) = RedirectTo 0x4100 \<and>
   classification
     (JVM_handle_bsd_signal (example_env_slowcase Apple) SIGSEGV
        (Some (example_info 0x80000)) (Some (example_uc Apple 0x4020 0x5008))
        (Some (Java_thread (example_thread thread_in_Java))) True) = RedirectTo 0x4100"
  by (simp add: handler_eval example_defs NetBSD_REG_ELR_def)

text \<open>
  Claim C7, amended. The thread is in state _thread_in_Java and a segmentation fault (on
  macOS also a bus fault) has the polling page as its fault address. The fault reaches
  the poll test: no crash protection jump, no assert poison, no SafeFetch pc, and the
  address that the stack overflow code tests (the fault address, on FreeBSD lowered by
  the guard page workaround) is in no guard zone of the thread's stack. Then the poll
  test stands before the unsafe access test and the implicit null test of the chain for
  Java code, so whether the address needs an explicit null check and whether the code
  at pc is a compiled method with unsafe accesses makes no difference. The two checks
  after the chain keep their precedence: the handler returns true with the program
  counter of the context set to the poll stub, and the faulting pc saved on the thread,
  provided the poll stub is not NULL, the pc is no jni_fast_GetField slow case and the
  address is not the serialization page.
\<close>

theorem poll_fault_in_Java:
  assumes entry: "\<not> check_crash_protection e sig t"
      "\<not> assert_poison_check e sig (Some info) (Some uc)"
      "safefetch_check e (Some uc) = None"
      "java_thread_of e t = Some thread"
    and sig: "sig = SIGSEGV \<or> (os_family e = Apple \<and> sig = SIGBUS)"
    and java: "thread_state thread = thread_in_Java"
    and poll: "is_poll_address e (si_addr info)"
    and no_zone: "\<not> (on_local_stack thread (guard_zone_address e info) \<and>
        (in_stack_yellow_reserved_zone thread (guard_zone_address e info) \<or>
         in_stack_red_zone thread (guard_zone_address e info)))"
    and stub: "get_poll_stub e (ucontext_get_pc uc) \<noteq> 0"
    and jni: "find_slowcase_pc e (ucontext_get_pc uc) = - 1"
    and ser: "\<not> is_memory_serialize_page e thread (si_addr info)"
  shows "JVM_handle_bsd_signal e sig (Some info) (Some uc) t abort_if_unrecognized =
     \<lparr>classification = RedirectTo (get_poll_stub e (ucontext_get_pc uc)),
      uc_after = Some (ucontext_set_pc uc (get_poll_stub e (ucontext_get_pc uc))),
      t_after = Some (Java_thread (set_saved_exception_pc (ucontext_get_pc uc) thread))\<rparr> \<and>
     map_option ucontext_get_pc
       (uc_after (JVM_handle_bsd_signal e sig (Some info) (Some uc) t abort_if_unrecognized)) =
       Some (get_poll_stub e (ucontext_get_pc uc)) \<and>
     map_option ucontext_get_sp
       (uc_after (JVM_handle_bsd_signal e sig (Some info) (Some uc) t abort_if_unrecognized)) =
       Some (ucontext_get_sp uc) \<and>
     map_option ucontext_get_lr
       (uc_after (JVM_handle_bsd_signal e sig (Some info) (Some uc) t abort_if_unrecognized)) =
       Some (ucontext_get_lr uc)"
proof -
  define pc where "pc = ucontext_get_pc uc"
  have gs: "guard_zone_signal e sig"
    using sig by (simp add: guard_zone_signal_def)
  have ns: "sig \<noteq> SIGPIPE" "sig \<noteq> SIGXFSZ" "sig \<noteq> SIGILL"
    using sig by auto
  note blk = JVM_handle_bsd_signal_block [OF entry(1) ns(1,2) entry(2,3,4)]
  have so: "stack_overflow_checks e uc thread pc (guard_zone_address e info) =
      Continue (thread, 0)"
    using no_zone by (auto simp: stack_overflow_checks_def)
  have jni': "jni_fast_getfield_check e sig pc (get_poll_stub e pc) = get_poll_stub e pc"
    using jni by (simp add: jni_fast_getfield_check_def pc_def)
  have ser': "\<not> serialize_page_check e sig info thread"
    using ser by (simp add: serialize_page_check_def)
  have "(if os_family e = Apple then classify_apple e sig info uc thread
         else classify_bsd e sig info uc thread) = Continue (thread, get_poll_stub e pc)"
    using gs
  proof (cases rule: guard_zone_signal_cases)
    case 1
    have "state_rules_apple e sig info thread pc 0 = Continue (get_poll_stub e pc)"
      using 1 java poll ns(3) by (simp add: state_rules_apple_def)
    then show ?thesis
      using 1 so jni' ser'
      by (simp add: classify_apple_guard pc_def guard_zone_address_Apple)
  next
    case 2
    have "state_rules_bsd e SIGSEGV info thread pc 0 = get_poll_stub e pc"
      using java poll by (simp add: state_rules_bsd_def)
    then show ?thesis
      using 2 so jni' ser' by (simp add: classify_bsd_guard pc_def)
  qed
  from blk [OF this]
  have "JVM_handle_bsd_signal e sig (Some info) (Some uc) t abort_if_unrecognized =
     \<lparr>classification = RedirectTo (get_poll_stub e (ucontext_get_pc uc)),
      uc_after = Some (ucontext_set_pc uc (get_poll_stub e (ucontext_get_pc uc))),
      t_after = Some (Java_thread (set_saved_exception_pc (ucontext_get_pc uc) thread))\<rparr>"
    using stub by (simp add: handler_tail_def pc_def)
  then show ?thesis
    by (simp add: ucontext_get_pc_set_pc ucontext_set_pc_keeps)
qed

theorem poll_fault_in_Java_witness:
  "\<not> check_crash_protection (example_env_implicit_null Apple) SIGBUS
       (Some (Java_thread (example_thread thread_in_Java))) \<and>
   safefetch_check (example_env_implicit_null Apple)
     (Some (example_uc Apple 0x4020 0x5008)) = None \<and>
   is_poll_address (example_env_implicit_null Apple) (si_addr (example_info 0x80000)) \<and>
   \<not> on_local_stack (example_thread thread_in_Java)
       (guard_zone_address (example_env_implicit_null Apple) (example_info 0x80000)) \<and>
   find_slowcase_pc (example_env_implicit_null Apple)
     (ucontext_get_pc (example_uc Apple 0x4020 0x5008)) = - 1 \<and>
   JVM_handle_bsd_signal (example_env_implicit_null Apple) SIGBUS
       (Some (example_info 0x80000)) (Some (example_uc Apple 0x4020 0x5008))
       (Some (Java_thread (example_thread thread_in_Java))) True =
     \<lparr>classification = RedirectTo 0xA400,
      uc_after = Some (example_uc Apple 0xA400 0x5008),
      t_after = Some (Java_thread ((example_thread thread_in_Java)
        \<lparr>saved_exception_pc := 0x4020\<rparr>))\<rparr> \<and>
   map_option ucontext_get_pc
     (uc_after (JVM_handle_bsd_signal (example_env NetBSD) SIGSEGV
        (Some (example_info 0x80000)) (Some (example_uc NetBSD 0x4020 0x5008))
        (Some (Java_thread (example_thread thread_in_Java))) True)) = Some 0xA400"
  using poll_fault_in_Java
    [of "example_env_implicit_null Apple" SIGBUS
        "Some (Java_thread (example_thread thread_in_Java))"
        "example_info 0x80000" "example_uc Apple 0x4020 0x5008"
        "example_thread thread_in_Java" True]
    poll_fault_in_Java
    [of "example_env NetBSD" SIGSEGV "Some (Java_thread (example_thread thread_in_Java))"
        "example_info 0x80000" "example_uc NetBSD 0x4020 0x5008"
        "example_thread thread_in_Java" True]
  by (simp add: example_env_def example_env_implicit_null_def example_uc_def
      example_thread_def example_info_def
      guard_zone_address_def java_thread_of_def NetBSD_REG_ELR_def
      assert_poison_check_def safefetch_check_def is_safefetch_fault_def
      set_saved_exception_pc_def Let_def)

subsection \<open>What the stack overflow code leaves on the thread\<close>

lemma step_thread_simps [simp]:
  "step_thread (Return (c, th)) = th"
  "step_thread (Continue (th, stub)) = th"
  by (simp_all add: step_thread_def)

lemma handler_thread_of_block:
  assumes "\<not> check_crash_protection e sig t"
    and "sig \<noteq> SIGPIPE" and "sig \<noteq> SIGXFSZ"
    and "\<not> assert_poison_check e sig (Some i) (Some uc)"
    and "safefetch_check e (Some uc) = None"
    and "java_thread_of e t = Some thread"
    and "(if os_family e = Apple then classify_apple e sig i uc thread
          else classify_bsd e sig i uc thread) = r"
  shows "\<exists>x. t_after (JVM_handle_bsd_signal e sig (Some i) (Some uc) t abort) =
     Some (Java_thread ((step_thread r)\<lparr>saved_exception_pc := x\<rparr>))"
proof (cases r)
  case (Return cr)
  obtain c th where cr: "cr = (c, th)" by (cases cr)
  have "t_after (JVM_handle_bsd_signal e sig (Some i) (Some uc) t abort) =
      Some (Java_thread (th\<lparr>saved_exception_pc := saved_exception_pc th\<rparr>))"
    using JVM_handle_bsd_signal_block [OF assms, of abort] Return cr by simp
  then have "t_after (JVM_handle_bsd_signal e sig (Some i) (Some uc) t abort) =
      Some (Java_thread ((step_thread r)\<lparr>saved_exception_pc := saved_exception_pc th\<rparr>))"
    using Return cr by simp
  then show ?thesis ..
next
  case (Continue cr)
  obtain th stub where cr: "cr = (th, stub)" by (cases cr)
  show ?thesis
  proof (cases "stub = 0")
    case True
    have "t_after (JVM_handle_bsd_signal e sig (Some i) (Some uc) t abort) =
        Some (Java_thread (th\<lparr>saved_exception_pc := saved_exception_pc th\<rparr>))"
      using JVM_handle_bsd_signal_block [OF assms, of abort] Continue cr True
      by (simp add: handler_tail_def Let_def)
    then have "t_after (JVM_handle_bsd_signal e sig (Some i) (Some uc) t abort) =
        Some (Java_thread ((step_thread r)\<lparr>saved_exception_pc := saved_exception_pc th\<rparr>))"
      using Continue cr by simp
    then show ?thesis ..
  next
    case False
    have "t_after (JVM_handle_bsd_signal e sig (Some i) (Some uc) t abort) =
        Some (Java_thread (th\<lparr>saved_exception_pc := ucontext_get_pc uc\<rparr>))"
      using JVM_handle_bsd_signal_block [OF assms, of abort] Continue cr False
      by (simp add: handler_tail_def set_saved_exception_pc_def)
    then have "t_after (JVM_handle_bsd_signal e sig (Some i) (Some uc) t abort) =
        Some (Java_thread ((step_thread r)\<lparr>saved_exception_pc := ucontext_get_pc uc\<rparr>))"
      using Continue cr by simp
    then show ?thesis ..
  qed
qed

lemma classify_thread_guard:
  assumes "guard_zone_signal e sig"
  shows "step_thread (if os_family e = Apple then classify_apple e sig i uc thread
                      else classify_bsd e sig i uc thread) =
         thread_after_stack_overflow_checks e uc thread (guard_zone_address e i)"
  using assms
proof (cases rule: guard_zone_signal_cases)
  case 1
  then show ?thesis
    by (auto simp: classify_apple_guard thread_after_stack_overflow_checks_def
        guard_zone_address_Apple split: step.splits)
next
  case 2
  then show ?thesis
    by (auto simp: classify_bsd_guard thread_after_stack_overflow_checks_def
        split: step.splits)
qed

lemma guard_zone_effect_persists:
  assumes "\<not> check_crash_protection e sig t"
    and "\<not> assert_poison_check e sig (Some i) (Some uc)"
    and "safefetch_check e (Some uc) = None"
    and "java_thread_of e t = Some thread"
    and "guard_zone_signal e sig"
  shows "\<exists>x. t_after (JVM_handle_bsd_signal e sig (Some i) (Some uc) t abort) =
     Some (Java_thread
       ((thread_after_stack_overflow_checks e uc thread (guard_zone_address e i))
          \<lparr>saved_exception_pc := x\<rparr>))"
proof -
  have ns: "sig \<noteq> SIGPIPE" "sig \<noteq> SIGXFSZ"
    using assms(5) by (auto simp: guard_zone_signal_def)
  show ?thesis
    using handler_thread_of_block [OF assms(1) ns assms(2,3,4) refl, of abort]
    by (simp only: classify_thread_guard [OF assms(5)])
qed


subsection \<open>The red zone\<close>

text \<open>
  Claim C3, as stated: every fault at a red zone address disables the red zone and is
  classified Fatal, with the report and the end of the process. It fails on the code in
  two ways. The red zone branch (lines 363-368 and 1086-1096) disables the red zone and
  sets nothing else, and the handler goes on: here the thread, with its yellow zone
  already disabled, faults in the red zone and the caller passed abort_if_unrecognized =
  false, and the handler returns false. And on FreeBSD with the kernel's stack gap in
  place the handler tests the fault address lowered by the guard pages (lines
  1004-1052): the fault at the red zone address 0x10800 is tested at 0xF800, below the
  stack, and no zone is disabled.
\<close>

theorem red_zone_fault_not_fatal_counterexample:
  "in_stack_red_zone
     ((example_thread thread_in_Java)\<lparr>yellow_reserved_zone_disabled := True\<rparr>)
     (si_addr (example_info 0x10800)) \<and>
   yellow_reserved_zone_disabled
     ((example_thread thread_in_Java)\<lparr>yellow_reserved_zone_disabled := True\<rparr>) \<and>
   JVM_handle_bsd_signal (example_env Apple) SIGSEGV (Some (example_info 0x10800))
       (Some (example_uc Apple 0x4004 0x5008))
       (Some (Java_thread
          ((example_thread thread_in_Java)\<lparr>yellow_reserved_zone_disabled := True\<rparr>)))
       False =
     \<lparr>classification = Unhandled,
      uc_after = Some (example_uc Apple 0x4004 0x5008),
      t_after = Some (Java_thread ((example_thread thread_in_Java)
        \<lparr>yellow_reserved_zone_disabled := True, red_zone_disabled := True\<rparr>))\<rparr> \<and>
   return_value Unhandled = Some False \<and>
   JVM_handle_bsd_signal example_env_stack_gap SIGSEGV (Some (example_info 0x10800))
       (Some (example_uc FreeBSD 0x4004 0x5008))
       (Some (Java_thread
          ((example_thread thread_in_Java)\<lparr>yellow_reserved_zone_disabled := True\<rparr>)))
       True =
     \<lparr>classification = Fatal 0x4004,
      uc_after = Some (example_uc FreeBSD 0x4004 0x5008),
      t_after = Some (Java_thread ((example_thread thread_in_Java)
        \<lparr>yellow_reserved_zone_disabled := True\<rparr>))\<rparr>"
  by (simp add: handler_eval example_defs)

text \<open>
  Claim C3, amended. The fault (a segmentation fault, on macOS also a bus fault) reaches
  the classifying block: no crash protection jump, no assert poison, no SafeFetch pc.
  The address that the handler tests is the fault address, on FreeBSD the fault address
  lowered by the guard page workaround. When the tested address is an address of the
  thread's stack in the red zone and outside the yellow and reserved zones, the handler
  always leaves the red zone disabled on the thread, and the stack overflow code sets no
  stub. The source tests the address ranges of the zones, with the yellow range first,
  and not whether the yellow zone is disabled. The fault then falls through to the rest of the
  handler. When no later rule takes it (the address is neither the polling page nor an
  address with an implicit null check, a bus fault is no unsafe access, the pc is no
  jni_fast_GetField slow case, the address is not the serialization page), the outcome
  is that of an unrecognized signal: forwarded when the chained handler takes it, return
  false when abort_if_unrecognized is false, and only otherwise the fatal error report;
  the context is not redirected in any of the three.
\<close>

theorem red_zone_fault_falls_through:
  assumes entry: "\<not> check_crash_protection e sig t"
      "\<not> assert_poison_check e sig (Some info) (Some uc)"
      "safefetch_check e (Some uc) = None"
      "java_thread_of e t = Some thread"
    and sig: "guard_zone_signal e sig"
    and stack: "on_local_stack thread (guard_zone_address e info)"
    and not_yellow: "\<not> in_stack_yellow_reserved_zone thread (guard_zone_address e info)"
    and red: "in_stack_red_zone thread (guard_zone_address e info)"
  shows "(\<exists>x. t_after (JVM_handle_bsd_signal e sig (Some info) (Some uc) t abort_if_unrecognized)
            = Some (Java_thread ((disable_stack_red_zone thread)\<lparr>saved_exception_pc := x\<rparr>))) \<and>
     (\<not> is_poll_address e (si_addr info) \<and>
      needs_explicit_null_check e (si_addr info) \<and>
      (sig = SIGBUS \<longrightarrow>
         \<not> nm_has_unsafe_access e (ucontext_get_pc uc) \<and> \<not> doing_unsafe_access thread) \<and>
      find_slowcase_pc e (ucontext_get_pc uc) = - 1 \<and>
      \<not> is_memory_serialize_page e (disable_stack_red_zone thread) (si_addr info) \<longrightarrow>
      JVM_handle_bsd_signal e sig (Some info) (Some uc) t abort_if_unrecognized =
        \<lparr>classification =
           (if chained_handler e sig (Some info) (Some uc) then ForwardToChain
            else if \<not> abort_if_unrecognized then Unhandled
            else Fatal (ucontext_get_pc uc)),
         uc_after = Some uc,
         t_after = Some (Java_thread (disable_stack_red_zone thread))\<rparr>)"
proof -
  define pc where "pc = ucontext_get_pc uc"
  define thread1 where "thread1 = disable_stack_red_zone thread"
  have ns: "sig \<noteq> SIGPIPE" "sig \<noteq> SIGXFSZ" "sig \<noteq> SIGILL" "sig \<noteq> SIGTRAP" "sig \<noteq> SIGFPE"
    using sig by (auto simp: guard_zone_signal_def)
  have st1: "thread_state thread1 = thread_state thread"
      "doing_unsafe_access thread1 = doing_unsafe_access thread"
    by (simp_all add: thread1_def disable_stack_red_zone_def)
  have so: "stack_overflow_checks e uc thread pc (guard_zone_address e info) =
      Continue (thread1, 0)"
    using stack not_yellow red by (simp add: stack_overflow_checks_def thread1_def)
  have eff: "thread_after_stack_overflow_checks e uc thread (guard_zone_address e info) =
      thread1"
    using so by (simp add: thread_after_stack_overflow_checks_def pc_def)
  have part1: "\<exists>x. t_after (JVM_handle_bsd_signal e sig (Some info) (Some uc) t
        abort_if_unrecognized) = Some (Java_thread (thread1\<lparr>saved_exception_pc := x\<rparr>))"
    using guard_zone_effect_persists [OF entry sig, of abort_if_unrecognized] eff by simp
  have part2: "JVM_handle_bsd_signal e sig (Some info) (Some uc) t abort_if_unrecognized =
        \<lparr>classification =
           (if chained_handler e sig (Some info) (Some uc) then ForwardToChain
            else if \<not> abort_if_unrecognized then Unhandled
            else Fatal pc),
         uc_after = Some uc,
         t_after = Some (Java_thread thread1)\<rparr>"
    if later: "\<not> is_poll_address e (si_addr info)"
      "needs_explicit_null_check e (si_addr info)"
      "sig = SIGBUS \<longrightarrow> \<not> nm_has_unsafe_access e pc \<and> \<not> doing_unsafe_access thread"
      "find_slowcase_pc e pc = - 1"
      "\<not> is_memory_serialize_page e thread1 (si_addr info)"
  proof -
    have jni: "jni_fast_getfield_check e sig pc 0 = 0"
      using later(4) by (simp add: jni_fast_getfield_check_def)
    have ser: "\<not> serialize_page_check e sig info thread1"
      using later(5) by (simp add: serialize_page_check_def)
    have "(if os_family e = Apple then classify_apple e sig info uc thread
           else classify_bsd e sig info uc thread) = Continue (thread1, 0)"
      using sig
    proof (cases rule: guard_zone_signal_cases)
      case 1
      have "state_rules_apple e sig info thread1 pc 0 = Continue 0"
        using later(1,2,3) ns st1 by (auto simp: state_rules_apple_def)
      then show ?thesis
        using 1 so jni ser
        by (simp add: classify_apple_guard pc_def guard_zone_address_Apple)
    next
      case 2
      have "state_rules_bsd e SIGSEGV info thread1 pc 0 = 0"
        using later(1,2) by (simp add: state_rules_bsd_def)
      then show ?thesis
        using 2 so jni ser by (simp add: classify_bsd_guard pc_def)
    qed
    from JVM_handle_bsd_signal_block [OF entry(1) ns(1,2) entry(2,3,4) this,
        of abort_if_unrecognized]
    show ?thesis
      by (simp add: handler_tail_def pc_def Let_def)
  qed
  show ?thesis
    using part1 part2 by (simp add: pc_def thread1_def)
qed

theorem red_zone_fault_falls_through_witness:
  "guard_zone_signal (example_env OpenBSD) SIGSEGV \<and>
   on_local_stack (example_thread thread_in_Java)
     (guard_zone_address (example_env OpenBSD) (example_info 0x10800)) \<and>
   \<not> in_stack_yellow_reserved_zone (example_thread thread_in_Java)
     (guard_zone_address (example_env OpenBSD) (example_info 0x10800)) \<and>
   in_stack_red_zone (example_thread thread_in_Java)
     (guard_zone_address (example_env OpenBSD) (example_info 0x10800)) \<and>
   JVM_handle_bsd_signal (example_env OpenBSD) SIGSEGV (Some (example_info 0x10800))
       (Some (example_uc OpenBSD 0x4004 0x5008))
       (Some (Java_thread (example_thread thread_in_Java))) True =
     \<lparr>classification = Fatal 0x4004,
      uc_after = Some (example_uc OpenBSD 0x4004 0x5008),
      t_after = Some (Java_thread ((example_thread thread_in_Java)
        \<lparr>red_zone_disabled := True\<rparr>))\<rparr>"
  using red_zone_fault_falls_through
    [of "example_env OpenBSD" SIGSEGV "Some (Java_thread (example_thread thread_in_Java))"
        "example_info 0x10800" "example_uc OpenBSD 0x4004 0x5008"
        "example_thread thread_in_Java" True]
  by (simp add: example_defs guard_zone_signal_def guard_zone_address_def java_thread_of_def
      assert_poison_check_def safefetch_check_def is_safefetch_fault_def
      nm_has_unsafe_access_def disable_stack_red_zone_def Let_def)

subsection \<open>Which signals reach the stack overflow code\<close>




subsection \<open>Unsafe accesses outside Java code\<close>

text \<open>
  What both copies of the handler do: a bus fault during an unsafe access of a thread in
  state _thread_in_vm, and on macOS also of a thread in state _thread_in_native, resumes
  the thread at the address that handle_unsafe_access returns for the faulting pc plus one
  call instruction. The fault address is in no guard zone of the stack, the address
  returned is not NULL and the pc is no jni_fast_GetField slow case.
\<close>

lemma unsafe_access_outside_Java:
  assumes entry: "\<not> check_crash_protection e SIGBUS t"
      "\<not> assert_poison_check e SIGBUS (Some info) (Some uc)"
      "safefetch_check e (Some uc) = None"
      "java_thread_of e t = Some thread"
    and state: "thread_state thread = thread_in_vm \<or>
        (os_family e = Apple \<and> thread_state thread = thread_in_native)"
    and unsafe: "doing_unsafe_access thread"
    and no_zone: "\<not> (on_local_stack thread (si_addr info) \<and>
        (in_stack_yellow_reserved_zone thread (si_addr info) \<or>
         in_stack_red_zone thread (si_addr info)))"
    and stub: "handle_unsafe_access e thread
        (ucontext_get_pc uc + NativeCall_instruction_size) \<noteq> 0"
    and jni: "find_slowcase_pc e (ucontext_get_pc uc) = - 1"
  shows "JVM_handle_bsd_signal e SIGBUS (Some info) (Some uc) t abort_if_unrecognized =
     \<lparr>classification = RedirectTo
        (handle_unsafe_access e thread (ucontext_get_pc uc + NativeCall_instruction_size)),
      uc_after = Some (ucontext_set_pc uc
        (handle_unsafe_access e thread (ucontext_get_pc uc + NativeCall_instruction_size))),
      t_after = Some (Java_thread (set_saved_exception_pc (ucontext_get_pc uc) thread))\<rparr>"
proof -
  define pc where "pc = ucontext_get_pc uc"
  define next_pc where "next_pc = handle_unsafe_access e thread (pc + NativeCall_instruction_size)"
  have not_java: "thread_state thread \<noteq> thread_in_Java"
    using state by auto
  have jni': "jni_fast_getfield_check e SIGBUS pc next_pc = next_pc"
    using jni by (simp add: jni_fast_getfield_check_def pc_def)
  have "(if os_family e = Apple then classify_apple e SIGBUS info uc thread
         else classify_bsd e SIGBUS info uc thread) = Continue (thread, next_pc)"
  proof (cases "os_family e = Apple")
    case True
    have so: "stack_overflow_checks e uc thread pc (si_addr info) = Continue (thread, 0)"
      using no_zone by (auto simp: stack_overflow_checks_def)
    have "state_rules_apple e SIGBUS info thread pc 0 = Continue next_pc"
      using True state unsafe not_java by (auto simp: state_rules_apple_def next_pc_def)
    then show ?thesis
      using True so jni'
      by (simp add: classify_apple_guard pc_def serialize_page_check_def)
  next
    case False
    have "state_rules_bsd e SIGBUS info thread pc 0 = next_pc"
      using state unsafe not_java False by (auto simp: state_rules_bsd_def next_pc_def)
    then show ?thesis
      using False jni' by (simp add: classify_bsd_no_guard pc_def)
  qed
  from JVM_handle_bsd_signal_block [OF entry(1) _ _ entry(2,3,4) this, of abort_if_unrecognized]
  show ?thesis
    using stub by (simp add: handler_tail_def pc_def next_pc_def)
qed

text \<open>
  Claim C5: a bus fault during an unsafe access of a thread in the runtime
  (_thread_in_vm) or in native code (_thread_in_native) resumes the thread at the
  faulting pc plus one call instruction, on every OS. The macOS copy of the handler does
  so for both states (lines 429-435). The copy for the other systems tests for
  _thread_in_vm alone (line 1139): on OpenBSD the same fault of a thread in native code
  installs no stub and ends in the fatal error report.
\<close>

theorem unsafe_access_in_native_diverges:
  "thread_state ((example_thread thread_in_native)\<lparr>doing_unsafe_access := True\<rparr>) =
     thread_in_native \<and>
   doing_unsafe_access ((example_thread thread_in_native)\<lparr>doing_unsafe_access := True\<rparr>) \<and>
   classification
     (JVM_handle_bsd_signal (example_env Apple) SIGBUS (Some (example_info 0x30000))
        (Some (example_uc Apple 0x4020 0x5008))
        (Some (Java_thread ((example_thread thread_in_native)\<lparr>doing_unsafe_access := True\<rparr>)))
        True) = RedirectTo 0x4024 \<and>
   classification
     (JVM_handle_bsd_signal (example_env OpenBSD) SIGBUS (Some (example_info 0x30000))
        (Some (example_uc OpenBSD 0x4020 0x5008))
        (Some (Java_thread ((example_thread thread_in_native)\<lparr>doing_unsafe_access := True\<rparr>)))
        True) = Fatal 0x4020 \<and>
   classification
     (JVM_handle_bsd_signal (example_env OpenBSD) SIGBUS (Some (example_info 0x30000))
        (Some (example_uc OpenBSD 0x4020 0x5008))
        (Some (Java_thread ((example_thread thread_in_vm)\<lparr>doing_unsafe_access := True\<rparr>)))
        True) = RedirectTo 0x4024"
  by (simp add: handler_eval example_defs)

subsection \<open>Priority among the rules\<close>

lemmas rule_defs =
  rule_reserved_activation_def rule_stack_overflow_def rule_yellow_not_Java_def
  rule_zombie_def rule_poll_def rule_unsafe_access_Java_def rule_divide_by_zero_def
  rule_unimplemented_def rule_implicit_null_def rule_unsafe_access_runtime_def
  rule_jni_slowcase_def rule_serialize_page_def yellow_zone_fault_def
  thread_before_state_rules_def thread_after_stack_overflow_checks_def

lemma stubs_not_nullD:
  assumes "stubs_not_null e pc"
  shows "continuation_for_implicit_exception e thread pc kind \<noteq> 0"
    and "get_handle_wrong_method_stub e \<noteq> 0"
    and "get_poll_stub e pc \<noteq> 0"
    and "handle_unsafe_access e thread (pc + NativeCall_instruction_size) \<noteq> 0"
    and "find_slowcase_pc e pc \<noteq> 0"
  using assms by (simp_all add: stubs_not_null_def)

lemmas block_unfold =
  stack_overflow_checks_def jni_fast_getfield_check_def serialize_page_check_def
  block_result_def block_rules_by_priority_def rule_defs guard_zone_signal_def
  guard_zone_address_def disable_stack_yellow_reserved_zone_def disable_stack_red_zone_def
  Let_def

lemma classify_apple_first_match:
  assumes os: "os_family e = Apple"
    and nn: "stubs_not_null e (ucontext_get_pc uc)"
  shows "block_result (classify_apple e sig i uc thread) =
     first_match (block_rules_by_priority Apple) (e, sig, i, uc, thread)"
  using os stubs_not_nullD [OF nn]
  by (cases sig)
     (auto simp: classify_apple_def stack_overflow_apple_def state_rules_apple_def
        block_unfold split: option.splits)

lemma classify_bsd_first_match:
  assumes os: "os_family e \<noteq> Apple"
    and nn: "stubs_not_null e (ucontext_get_pc uc)"
  shows "block_result (classify_bsd e sig i uc thread) =
     first_match (block_rules_by_priority (os_family e)) (e, sig, i, uc, thread)"
  using os stubs_not_nullD [OF nn]
  by (cases sig)
     (auto simp: classify_bsd_def stack_overflow_bsd_def state_rules_bsd_def
        block_unfold split: option.splits)

lemma first_match_append:
  "first_match (xs @ ys) x =
     (case first_match xs x of Some y \<Rightarrow> Some y | None \<Rightarrow> first_match ys x)"
  by (induction xs) (auto split: option.splits)

lemma first_match_in_block:
  "first_match (map in_block rs) (e, sig, info, ucVoid, t, ab) =
     (if info \<noteq> None \<and> ucVoid \<noteq> None \<and> java_thread_of e t \<noteq> None
      then first_match rs (e, sig, the info, the ucVoid, the (java_thread_of e t))
      else None)"
  by (induction rs) (auto simp: in_block_def split: option.splits)

lemma tail_first_match:
  "first_match [rule_chained_handler, rule_unhandled, rule_fatal]
       (e, sig, info, Some uc, t, ab) =
     Some (classification
        (handler_tail e sig info (Some uc) t thread (ucontext_get_pc uc) 0 ab))"
  "first_match [rule_chained_handler, rule_unhandled, rule_fatal]
       (e, sig, info, ucVoid, t, ab) =
     Some (classification (handler_tail e sig info ucVoid t thread 0 0 ab))"
  by (auto simp: rule_chained_handler_def rule_unhandled_def rule_fatal_def handler_tail_def
      Let_def split: option.splits)

lemma block_classification:
  "classification
     (case r of
        Return (c, thread1) \<Rightarrow>
          \<lparr>classification = c, uc_after = Some uc, t_after = Some (Java_thread thread1)\<rparr>
      | Continue (thread1, stub) \<Rightarrow>
          handler_tail e sig info (Some uc) t (Some thread1) (ucontext_get_pc uc) stub ab) =
   (case block_result r of
      Some c \<Rightarrow> c
    | None \<Rightarrow> classification
        (handler_tail e sig info (Some uc) t None (ucontext_get_pc uc) 0 ab))"
  by (auto simp: block_result_def handler_tail_def Let_def split: step.splits)

text \<open>
  Claim C4, as stated: the rules are evaluated in a fixed order and the first that matches
  decides, no later rule replacing its action. It fails on the code: the
  jni_fast_GetField check (lines 437-444 and 1146-1153) assigns stub whatever its value,
  and the serialization page check after it returns whatever stub is set. Here a thread
  in Java code takes a segmentation fault at address 8 with its pc at a registered slow
  case: the implicit null rule is the first rule in source order that matches, and the
  handler resumes the thread at the slow case address of the later rule.
\<close>

theorem first_match_in_source_order_counterexample:
  "rule_implicit_null
     (example_env_slowcase Apple, SIGSEGV, example_info 8, example_uc Apple 0x4020 0x5008,
      example_thread thread_in_Java) = Some (RedirectTo 0xA100) \<and>
   rule_jni_slowcase
     (example_env_slowcase Apple, SIGSEGV, example_info 8, example_uc Apple 0x4020 0x5008,
      example_thread thread_in_Java) = Some (RedirectTo 0x4100) \<and>
   first_match (pipeline block_rules_in_source_order)
     (example_env_slowcase Apple, SIGSEGV, Some (example_info 8),
      Some (example_uc Apple 0x4020 0x5008),
      Some (Java_thread (example_thread thread_in_Java)), True) = Some (RedirectTo 0xA100) \<and>
   classification
     (JVM_handle_bsd_signal (example_env_slowcase Apple) SIGSEGV (Some (example_info 8))
        (Some (example_uc Apple 0x4020 0x5008))
        (Some (Java_thread (example_thread thread_in_Java))) True) = RedirectTo 0x4100"
  by (simp add: handler_eval example_defs example_env_slowcase_def pipeline_def
      block_rules_in_source_order_def in_block_def rule_defs rule_crash_protection_def
      rule_ignorable_def rule_assert_poison_def rule_safefetch_def guard_zone_signal_def
      guard_zone_address_def step_thread_def)

text \<open>
  Claim C4, amended. The classification of every fault is the action of the first
  matching rule of a fixed list of predicate and action pairs, provided no stub handed
  out by the runtime is NULL; but the order of that list is not the order in which the
  source evaluates the rules. The rules that return at once keep their places: crash
  protection, the ignorable signals, the assert poison page, SafeFetch, and in the block
  the reserved zone activation and the yellow zone fault outside Java code. After them
  the serialization page rule and the jni_fast_GetField slow case rule, which the source
  evaluates last, come before every rule that sets a stub; on macOS the stack overflow
  stub comes before the rules for the thread state, on the other systems after them. The
  chained handler, return false and the fatal error keep the last three places.
\<close>

theorem classification_is_first_match_by_priority:
  assumes nn: "stubs_not_null e (case ucVoid of Some uc \<Rightarrow> ucontext_get_pc uc | None \<Rightarrow> 0)"
  shows "first_match (pipeline (block_rules_by_priority (os_family e)))
       (e, sig, info, ucVoid, t, abort_if_unrecognized) =
     Some (classification (JVM_handle_bsd_signal e sig info ucVoid t abort_if_unrecognized))"
proof -
  let ?f = "(e, sig, info, ucVoid, t, abort_if_unrecognized)"
  let ?H = "JVM_handle_bsd_signal e sig info ucVoid t abort_if_unrecognized"
  let ?rs = "block_rules_by_priority (os_family e)"
  let ?tl = "[rule_chained_handler, rule_unhandled, rule_fatal]"
  have front: "first_match (pipeline ?rs) ?f =
      (if check_crash_protection e sig t then Some CrashProtectionJump
       else if sig = SIGPIPE \<or> sig = SIGXFSZ then Some Resume
       else if assert_poison_check e sig info ucVoid then Some Resume
       else if safefetch_check e ucVoid \<noteq> None then Some Resume
       else first_match (map in_block ?rs @ ?tl) ?f)"
    by (simp add: pipeline_def rule_crash_protection_def rule_ignorable_def
        rule_assert_poison_def rule_safefetch_def)
  show ?thesis
  proof (cases "check_crash_protection e sig t \<or> sig = SIGPIPE \<or> sig = SIGXFSZ \<or>
      assert_poison_check e sig info ucVoid \<or> safefetch_check e ucVoid \<noteq> None")
    case True
    then show ?thesis
      unfolding front
      by (auto simp: JVM_handle_bsd_signal_def handle_signal_def)
  next
    case False
    then have pre: "\<not> check_crash_protection e sig t" "sig \<noteq> SIGPIPE" "sig \<noteq> SIGXFSZ"
        "\<not> assert_poison_check e sig info ucVoid" "safefetch_check e ucVoid = None"
      by auto
    have rest: "first_match (pipeline ?rs) ?f = first_match (map in_block ?rs @ ?tl) ?f"
      using pre by (simp add: front)
    show ?thesis
    proof (cases "info \<noteq> None \<and> ucVoid \<noteq> None \<and> java_thread_of e t \<noteq> None")
      case False
      have "?H = handler_tail e sig info ucVoid t (java_thread_of e t) 0 0
          abort_if_unrecognized"
        using pre False by (auto simp: JVM_handle_bsd_signal_def handle_signal_def)
      moreover have "first_match (map in_block ?rs) ?f = None"
        using False by (auto simp: first_match_in_block)
      ultimately show ?thesis
        by (simp add: rest first_match_append tail_first_match(2) del: first_match.simps)
    next
      case True
      then obtain i uc thread where iu: "info = Some i" "ucVoid = Some uc"
          "java_thread_of e t = Some thread"
        by auto
      define r where "r = (if os_family e = Apple then classify_apple e sig i uc thread
          else classify_bsd e sig i uc thread)"
      have nn': "stubs_not_null e (ucontext_get_pc uc)"
        using nn iu by simp
      have br: "block_result r = first_match ?rs (e, sig, i, uc, thread)"
        using classify_apple_first_match [OF _ nn', of sig i thread]
          classify_bsd_first_match [OF _ nn', of sig i thread]
        by (cases "os_family e = Apple") (simp_all add: r_def)
      have H: "?H = (case r of
          Return (c, thread1) \<Rightarrow>
            \<lparr>classification = c, uc_after = Some uc, t_after = Some (Java_thread thread1)\<rparr>
        | Continue (thread1, stub) \<Rightarrow>
            handler_tail e sig (Some i) (Some uc) t (Some thread1) (ucontext_get_pc uc) stub
              abort_if_unrecognized)"
        using JVM_handle_bsd_signal_block [OF pre(1,2,3) _ _ iu(3) r_def [symmetric],
            of abort_if_unrecognized] pre(4,5) iu
        by simp
      have blk: "first_match (map in_block ?rs) ?f = block_result r"
        using iu by (simp add: first_match_in_block br)
      have tl: "first_match ?tl ?f =
          Some (classification (handler_tail e sig (Some i) (Some uc) t None
            (ucontext_get_pc uc) 0 abort_if_unrecognized))"
        using tail_first_match(1) [of e sig "Some i" uc t abort_if_unrecognized None] iu
        by simp
      have cl: "classification ?H =
          (case block_result r of
             Some c \<Rightarrow> c
           | None \<Rightarrow> classification (handler_tail e sig (Some i) (Some uc) t None
               (ucontext_get_pc uc) 0 abort_if_unrecognized))"
        unfolding H by (rule block_classification)
      show ?thesis
        unfolding rest first_match_append blk tl cl
        by (cases "block_result r") simp_all
    qed
  qed
qed

theorem classification_is_first_match_by_priority_witness:
  "stubs_not_null (example_env_slowcase Apple)
     (case Some (example_uc Apple 0x4020 0x5008) of
        Some uc \<Rightarrow> ucontext_get_pc uc | None \<Rightarrow> 0) \<and>
   first_match (pipeline (block_rules_by_priority Apple))
     (example_env_slowcase Apple, SIGSEGV, Some (example_info 8),
      Some (example_uc Apple 0x4020 0x5008),
      Some (Java_thread (example_thread thread_in_Java)), True) = Some (RedirectTo 0x4100)"
  using classification_is_first_match_by_priority
    [of "example_env_slowcase Apple" "Some (example_uc Apple 0x4020 0x5008)" SIGSEGV
        "Some (example_info 8)" "Some (Java_thread (example_thread thread_in_Java))" True]
  by (simp add: handler_eval example_defs example_env_slowcase_def stubs_not_null_def
      split: ImplicitExceptionKind.splits)

end
